theory Spec2Isabelle
  imports Main
begin

section \<open>Python strings\<close>

text \<open>
  Strings are lists of 8-bit characters. Text outside ASCII is held as its UTF-8 bytes.
  The case functions below act on ASCII letters and leave every other byte as it is: the
  identifiers whose case the job pipeline changes (mining methods, the cleaning flag)
  are ASCII. Stripping knows the white space of Unicode.
\<close>

definition is_ascii_lower :: "char \<Rightarrow> bool" where
  "is_ascii_lower c = (97 \<le> (of_char c :: nat) \<and> (of_char c :: nat) \<le> 122)"

definition is_ascii_upper :: "char \<Rightarrow> bool" where
  "is_ascii_upper c = (65 \<le> (of_char c :: nat) \<and> (of_char c :: nat) \<le> 90)"

definition to_lower :: "char \<Rightarrow> char" where
  "to_lower c = (if is_ascii_upper c then char_of ((of_char c :: nat) + 32) else c)"

definition to_upper :: "char \<Rightarrow> char" where
  "to_upper c = (if is_ascii_lower c then char_of ((of_char c :: nat) - 32) else c)"

text \<open>\<^verbatim>\<open>str.lower()\<close>.\<close>

definition lower :: "string \<Rightarrow> string" where
  "lower s = map to_lower s"

text \<open>
  \<^verbatim>\<open>str.title()\<close>: a cased character becomes upper case when the character before it
  is not cased, and lower case otherwise. The flag says whether the previous character
  was cased.
\<close>

fun title_from :: "bool \<Rightarrow> string \<Rightarrow> string" where
  "title_from prev [] = []"
| "title_from prev (c # cs) =
     (if is_ascii_lower c \<or> is_ascii_upper c
      then (if prev then to_lower c else to_upper c) # title_from True cs
      else c # title_from False cs)"

definition title :: "string \<Rightarrow> string" where
  "title s = title_from False s"

text \<open>
  The white space of \<^verbatim>\<open>str.isspace()\<close>, each character as its UTF-8 bytes: U+0009 to
  U+000D, U+001C to U+0020, U+0085, U+00A0, U+1680, U+2000 to U+200A, U+2028, U+2029,
  U+202F, U+205F and U+3000.
\<close>

definition whitespace :: "string list" where
  "whitespace =
     [[CHR 0x09], [CHR 0x0A], [CHR 0x0B], [CHR 0x0C], [CHR 0x0D],
      [CHR 0x1C], [CHR 0x1D], [CHR 0x1E], [CHR 0x1F], [CHR 0x20],
      [CHR 0xC2, CHR 0x85], [CHR 0xC2, CHR 0xA0], [CHR 0xE1, CHR 0x9A, CHR 0x80],
      [CHR 0xE2, CHR 0x80, CHR 0x80], [CHR 0xE2, CHR 0x80, CHR 0x81], [CHR 0xE2, CHR 0x80, CHR 0x82],
      [CHR 0xE2, CHR 0x80, CHR 0x83], [CHR 0xE2, CHR 0x80, CHR 0x84], [CHR 0xE2, CHR 0x80, CHR 0x85],
      [CHR 0xE2, CHR 0x80, CHR 0x86], [CHR 0xE2, CHR 0x80, CHR 0x87], [CHR 0xE2, CHR 0x80, CHR 0x88],
      [CHR 0xE2, CHR 0x80, CHR 0x89], [CHR 0xE2, CHR 0x80, CHR 0x8A],
      [CHR 0xE2, CHR 0x80, CHR 0xA8], [CHR 0xE2, CHR 0x80, CHR 0xA9], [CHR 0xE2, CHR 0x80, CHR 0xAF],
      [CHR 0xE2, CHR 0x81, CHR 0x9F], [CHR 0xE3, CHR 0x80, CHR 0x80]]"

text \<open>
  Removing from the front of a string, as long as there is one, a leading occurrence of
  one of the given non-empty byte sequences.
\<close>

function lstrip_with :: "string list \<Rightarrow> string \<Rightarrow> string" where
  "lstrip_with ws s =
     (case find (\<lambda>w. w \<noteq> [] \<and> take (length w) s = w) ws of
        None \<Rightarrow> s
      | Some w \<Rightarrow> lstrip_with ws (drop (length w) s))"
  by pat_completeness auto
termination
proof (relation "measure (\<lambda>(ws, s). length s)")
  show "wf (measure (\<lambda>(ws, s). length s))"
    by simp
next
  fix ws :: "string list" and s w :: string
  assume "find (\<lambda>w. w \<noteq> [] \<and> take (length w) s = w) ws = Some w"
  then have ne: "w \<noteq> []" and tk: "take (length w) s = w"
    by (auto simp: find_Some_iff)
  from tk have "length (take (length w) s) = length w"
    by simp
  then have "length w \<le> length s"
    by simp
  with ne show "((ws, drop (length w) s), (ws, s)) \<in> measure (\<lambda>(ws, s). length s)"
    by (cases w) auto
qed

declare lstrip_with.simps [simp del]

text \<open>
  \<^verbatim>\<open>str.strip()\<close>: white space is removed from both ends. At the end of the string the
  bytes of a character are met in reverse order.
\<close>

definition strip :: "string \<Rightarrow> string" where
  "strip s = rev (lstrip_with (map rev whitespace) (rev (lstrip_with whitespace s)))"

text \<open>\<^verbatim>\<open>str.endswith(suffix)\<close>.\<close>

definition endswith :: "string \<Rightarrow> string \<Rightarrow> bool" where
  "endswith s suf = (length suf \<le> length s \<and> drop (length s - length suf) s = suf)"

text \<open>\<^verbatim>\<open>sep.join(parts)\<close>.\<close>

fun join :: "string \<Rightarrow> string list \<Rightarrow> string" where
  "join sep [] = []"
| "join sep [x] = x"
| "join sep (x # y # ys) = x @ sep @ join sep (y # ys)"

text \<open>\<^verbatim>\<open>str(n)\<close> for a natural number, and for an integer.\<close>

definition digit_char :: "nat \<Rightarrow> char" where
  "digit_char d = char_of (48 + d)"

fun str_nat :: "nat \<Rightarrow> string" where
  "str_nat n = (if n < 10 then [digit_char n] else str_nat (n div 10) @ [digit_char (n mod 10)])"

declare str_nat.simps [simp del]

definition str_int :: "int \<Rightarrow> string" where
  "str_int i = (if i < 0 then CHR ''-'' # str_nat (nat (- i)) else str_nat (nat i))"

text \<open>
  The format \<^verbatim>\<open>{n:,}\<close> of a natural number: decimal digits in groups of three, separated
  by commas.
\<close>

definition three_digits :: "nat \<Rightarrow> string" where
  "three_digits n = [digit_char (n div 100 mod 10), digit_char (n div 10 mod 10), digit_char (n mod 10)]"

fun format_comma :: "nat \<Rightarrow> string" where
  "format_comma n =
     (if n < 1000 then str_nat n
      else format_comma (n div 1000) @ CHR '','' # three_digits (n mod 1000))"

declare format_comma.simps [simp del]

text \<open>The warning sign U+26A0 U+FE0F that opens the quota messages, as UTF-8.\<close>

definition warning_sign :: string where
  "warning_sign = [CHR 0xE2, CHR 0x9A, CHR 0xA0, CHR 0xEF, CHR 0xB8, CHR 0x8F]"

section \<open>Users and their quota attributes (accounts/models.py)\<close>

text \<open>
  The fields of \<^verbatim>\<open>User\<close> that the job pipeline reads. Times are seconds on one clock;
  \<open>license_expires_at = None\<close> is a lifetime license. \<open>allowed_algorithms\<close> is the JSON
  list of algorithm identifiers.
\<close>

record user =
  pk :: nat
  license_type :: string
  license_expires_at :: "int option"
  max_log_rows :: int
  allowed_algorithms :: "string list"
  max_projects :: int

definition LICENSE_PREMIUM :: string where
  "LICENSE_PREMIUM = ''premium''"

definition ALGORITHM_CHOICES :: "(string \<times> string) list" where
  "ALGORITHM_CHOICES =
     [(''alpha'', ''Alpha Miner''), (''heuristics'', ''Heuristics Miner''),
      (''inductive'', ''Inductive Miner'')]"

text \<open>\<^verbatim>\<open>User.is_premium\<close>, read at time \<open>now\<close>.\<close>

definition is_premium :: "int \<Rightarrow> user \<Rightarrow> bool" where
  "is_premium now u =
     (if license_type u \<noteq> LICENSE_PREMIUM then False
      else (case license_expires_at u of
              Some t \<Rightarrow> (if t < now then False else True)
            | None \<Rightarrow> True))"

text \<open>\<^verbatim>\<open>User.get_allowed_algorithms\<close> and \<^verbatim>\<open>User.can_use_algorithm\<close>.\<close>

definition get_allowed_algorithms :: "int \<Rightarrow> user \<Rightarrow> string list" where
  "get_allowed_algorithms now u =
     (if is_premium now u \<or> allowed_algorithms u = []
      then map fst ALGORITHM_CHOICES
      else allowed_algorithms u)"

definition can_use_algorithm :: "int \<Rightarrow> user \<Rightarrow> string \<Rightarrow> bool" where
  "can_use_algorithm now u algorithm = (algorithm \<in> set (get_allowed_algorithms now u))"

section \<open>Jobs, uploads and the stored state (discovery/models.py)\<close>

text \<open>
  A row of \<^verbatim>\<open>EventLogJob\<close>. \<open>user_id\<close> is the owner's key, \<open>original_file\<close> the path
  of the stored upload, the two output fields the path of a stored image when one is set.
  The two timestamps are left out: no operation below reads them.
\<close>

record job =
  job_id :: nat
  user_id :: nat
  original_file :: string
  original_filename :: string
  project_name :: string
  cleaning_enabled :: bool
  mining_method :: string
  status :: string
  progress :: int
  message :: string
  error_message :: string
  output_map_image :: "string option"
  output_map_svg :: "string option"

definition MINING_METHOD_CHOICES :: "(string \<times> string) list" where
  "MINING_METHOD_CHOICES = [(''alpha'', ''Alpha Miner''), (''heuristics'', ''Heuristics Miner'')]"

text \<open>The truth value of a file field: a file is set and its name is not empty.\<close>

definition has_file :: "string option \<Rightarrow> bool" where
  "has_file f = (case f of None \<Rightarrow> False | Some p \<Rightarrow> p \<noteq> [])"

text \<open>\<^verbatim>\<open>EventLogJob.get_output_url\<close>: the stored path stands for its URL.\<close>

definition get_output_url :: "job \<Rightarrow> string option" where
  "get_output_url j =
     (if has_file (output_map_svg j) then output_map_svg j
      else if has_file (output_map_image j) then output_map_image j
      else None)"

text \<open>\<^verbatim>\<open>get_mining_method_display\<close>: the label of the choice, the raw value when it is none.\<close>

definition get_mining_method_display :: "job \<Rightarrow> string" where
  "get_mining_method_display j =
     (case map_of MINING_METHOD_CHOICES (mining_method j) of
        Some label \<Rightarrow> label
      | None \<Rightarrow> mining_method j)"

text \<open>
  An uploaded file, as far as the job API looks at it: its name, and what pandas makes of
  its content, \<open>csv_rows = Some k\<close> when the content parses as a CSV table with \<open>k\<close> data
  rows and \<open>None\<close> when \<^verbatim>\<open>pd.read_csv\<close> raises on it.
\<close>

record uploaded_file =
  name :: string
  csv_rows :: "nat option"

text \<open>
  \<^verbatim>\<open>len(pd.read_csv(f, nrows=n))\<close>: at most \<open>n\<close> data rows are read; \<open>None\<close> is the raised
  exception.
\<close>

definition read_csv_nrows :: "uploaded_file \<Rightarrow> nat \<Rightarrow> nat option" where
  "read_csv_nrows f n = (case csv_rows f of None \<Rightarrow> None | Some k \<Rightarrow> Some (min k n))"

text \<open>
  The durable state: the job table, the file storage (stored path and file), and the job
  ids for which a background thread running \<^verbatim>\<open>process_job\<close> has been started.
\<close>

record state =
  jobs :: "job list"
  storage :: "(string \<times> uploaded_file) list"
  threads :: "nat list"

text \<open>The key the database gives to the next inserted row.\<close>

definition next_id :: "job list \<Rightarrow> nat" where
  "next_id js = Suc (fold max (map job_id js) 0)"

section \<open>Requests and responses\<close>

datatype jval = JStr string | JInt int

datatype response = JsonResponse (body: "(string \<times> jval) list") (status_code: nat)

text \<open>
  A request that has passed \<^verbatim>\<open>require_http_methods\<close> and \<^verbatim>\<open>login_required\<close>: the
  authenticated user, the uploaded files and the form fields.
\<close>

record request =
  user :: user
  FILES :: "string \<rightharpoonup> uploaded_file"
  POST :: "string \<rightharpoonup> string"

text \<open>\<^verbatim>\<open>dict.get(key, default)\<close>.\<close>

definition dict_get :: "(string \<rightharpoonup> string) \<Rightarrow> string \<Rightarrow> string \<Rightarrow> string" where
  "dict_get m k d = (case m k of None \<Rightarrow> d | Some v \<Rightarrow> v)"

definition upgrade_url :: "string \<times> jval" where
  "upgrade_url = (''upgrade_url'', JStr ''/accounts/activate-license/'')"

section \<open>Exceptions and the services behind the job API\<close>

text \<open>
  A raised exception is an instance of Python's \<^verbatim>\<open>Exception\<close>: the name of its class
  and its text \<^verbatim>\<open>str(e)\<close>.
\<close>

datatype exn = Exn (exc_type: string) (exc_msg: string)

text \<open>
  What \<^verbatim>\<open>create_job\<close> relies on when it creates the job, each of which returns or
  raises:
  \<^item> \<open>storage_save\<close>: the file storage saving the upload under a generated name for a
    file field of at most 100 characters. It returns the name under which the file is
    stored (cleaned, made unique, shortened if need be), or raises when no name fits.
  \<^item> \<open>db_insert\<close>: the insertion of the row, \<open>Some e\<close> when the database raises.
  \<^item> \<open>thread_start\<close>: starting the background thread for a job id, \<open>Some e\<close> when that
    raises.
  Reading the database (the user, the count of projects) is taken to succeed.
\<close>

record backend =
  storage_save :: "string \<Rightarrow> uploaded_file \<Rightarrow> exn + string"
  db_insert :: "job \<Rightarrow> exn option"
  thread_start :: "nat \<Rightarrow> exn option"

section \<open>The job API: create_job (discovery/views.py)\<close>

subsection \<open>The three license checks\<close>

text \<open>
  Each check is the block of \<^verbatim>\<open>create_job\<close> under its \<^verbatim>\<open>LICENSE CHECK\<close> comment. It
  yields the response the block returns, or \<open>None\<close> when control falls through to the
  next block.
\<close>

text \<open>Algorithm access (lines 85 to 92).\<close>

definition algorithm_denial :: "int \<Rightarrow> user \<Rightarrow> string \<Rightarrow> response option" where
  "algorithm_denial now u mining_method' =
     (if \<not> can_use_algorithm now u mining_method'
      then (let allowed = join '', '' (map title (get_allowed_algorithms now u)) in
            Some (JsonResponse
              [(''error'', JStr (warning_sign @ '' You do not have access to the ''
                                 @ title mining_method' @ '' algorithm.'')),
               (''message'', JStr (''Your plan allows: '' @ allowed
                                 @ ''. Please upgrade to Premium for access to all algorithms.'')),
               upgrade_url] 403))
      else None)"

text \<open>
  The number of distinct non-empty project names among the user's jobs: the query
  \<^verbatim>\<open>filter(user=...).exclude(project_name='').values('project_name').distinct().count()\<close>.
  The column is not nullable, so the null exclusion removes nothing.
\<close>

definition project_count :: "job list \<Rightarrow> nat \<Rightarrow> nat" where
  "project_count js uid =
     length (remdups (filter (\<lambda>p. p \<noteq> []) (map project_name (filter (\<lambda>j. user_id j = uid) js))))"

text \<open>Project limit (lines 92 to 110).\<close>

definition project_limit_denial :: "int \<Rightarrow> user \<Rightarrow> job list \<Rightarrow> response option" where
  "project_limit_denial now u js =
     (if \<not> is_premium now u
      then (let max_projects' = max_projects u in
            if max_projects' > 0
            then (let current_count = project_count js (pk u) in
                  if int current_count \<ge> max_projects'
                  then Some (JsonResponse
                    [(''error'', JStr (warning_sign @ '' Project limit reached (''
                                       @ str_int max_projects' @ '' projects).'')),
                     (''message'', JStr ''Please upgrade to Premium for unlimited projects or delete an existing project.''),
                     upgrade_url] 403)
                  else None)
            else None)
      else None)"

text \<open>
  Log size, for CSV files (lines 112 to 131). The pre-scan reads at most \<open>max_rows + 1\<close>
  rows; when it raises, the \<^verbatim>\<open>except\<close> clause passes and the request goes on.
\<close>

definition row_limit_denial :: "int \<Rightarrow> user \<Rightarrow> uploaded_file \<Rightarrow> response option" where
  "row_limit_denial now u uploaded =
     (if endswith (name uploaded) ''.csv'' \<and> \<not> is_premium now u
      then (let max_rows = max_log_rows u in
            if max_rows > 0
            then (case read_csv_nrows uploaded (nat (max_rows + 1)) of
                    None \<Rightarrow> None
                  | Some row_count \<Rightarrow>
                      if int row_count > max_rows
                      then Some (JsonResponse
                        [(''error'', JStr (warning_sign @ '' Log size limit exceeded (''
                                           @ format_comma row_count @ '' rows).'')),
                         (''message'', JStr (''Your plan allows up to '' @ format_comma (nat max_rows)
                                           @ '' rows. Please upgrade to Premium for unlimited log size.'')),
                         upgrade_url] 403)
                      else None)
            else None)
      else None)"

subsection \<open>Creating the job\<close>

text \<open>The list \<^verbatim>\<open>valid_methods\<close> and its rendering inside the f-string.\<close>

definition valid_methods :: "string list" where
  "valid_methods = map fst MINING_METHOD_CHOICES"

definition valid_methods_repr :: string where
  "valid_methods_repr =
     ''['' @ [CHR 0x27] @ ''alpha'' @ [CHR 0x27] @ '', '' @ [CHR 0x27] @ ''heuristics'' @ [CHR 0x27] @ '']''"

text \<open>
  The row that \<^verbatim>\<open>EventLogJob.objects.create(...)\<close> builds, with the model's defaults
  for the fields the call leaves out; \<open>path\<close> is the name under which the upload is
  stored.
\<close>

definition new_job ::
  "string \<Rightarrow> user \<Rightarrow> uploaded_file \<Rightarrow> string \<Rightarrow> bool \<Rightarrow> string \<Rightarrow> state \<Rightarrow> job" where
  "new_job path u uploaded project_name' cleaning_enabled' mining_method' st =
     \<lparr>job_id = next_id (jobs st), user_id = pk u,
      original_file = path, original_filename = name uploaded,
      project_name = project_name', cleaning_enabled = cleaning_enabled',
      mining_method = mining_method', status = ''pending'', progress = 0,
      message = ''Job created, waiting to start...'', error_message = [],
      output_map_image = None, output_map_svg = None\<rparr>"

text \<open>
  \<^verbatim>\<open>EventLogJob.objects.create(...)\<close>: saving the row first hands the upload to the
  storage, under the upload directory of the day (\<open>date_dir\<close> is the \<^verbatim>\<open>%Y/%m/%d/\<close>
  part), and then inserts the row. When the storage raises, nothing is written; when the
  insertion raises, the file is already stored. The result is the created row or the
  exception, and the state left behind.
\<close>

definition objects_create ::
  "backend \<Rightarrow> string \<Rightarrow> user \<Rightarrow> uploaded_file \<Rightarrow> string \<Rightarrow> bool \<Rightarrow> string \<Rightarrow> state
     \<Rightarrow> (exn + job) \<times> state" where
  "objects_create b date_dir u uploaded project_name' cleaning_enabled' mining_method' st =
     (case storage_save b (''uploads/event_logs/'' @ date_dir @ name uploaded) uploaded of
        Inl e \<Rightarrow> (Inl e, st)
      | Inr path \<Rightarrow>
          (let st1 = st\<lparr>storage := storage st @ [(path, uploaded)]\<rparr>;
               j = new_job path u uploaded project_name' cleaning_enabled' mining_method' st
           in case db_insert b j of
                Some e \<Rightarrow> (Inl e, st1)
              | None \<Rightarrow> (Inr j, st1\<lparr>jobs := jobs st @ [j]\<rparr>)))"

text \<open>The answer of the outer \<^verbatim>\<open>except\<close> clause of \<^verbatim>\<open>create_job\<close> (lines 155 to 169).\<close>

definition server_error :: "exn \<Rightarrow> response" where
  "server_error e = JsonResponse [(''error'', JStr (exc_msg e)), (''type'', JStr (exc_type e))] 500"

text \<open>
  Lines 133 to 153: the job is created and its thread started. Starting the thread is
  recorded in \<open>threads\<close>; what the thread does is \<open>process_job\<close> below. An exception of
  either step is answered by the outer \<^verbatim>\<open>except\<close> clause with status 500, and what was
  written before it stays written.
\<close>

definition create_and_start ::
  "backend \<Rightarrow> string \<Rightarrow> user \<Rightarrow> uploaded_file \<Rightarrow> string \<Rightarrow> bool \<Rightarrow> string \<Rightarrow> state
     \<Rightarrow> response \<times> state" where
  "create_and_start b date_dir u uploaded project_name' cleaning_enabled' mining_method' st =
     (case objects_create b date_dir u uploaded project_name' cleaning_enabled' mining_method' st of
        (Inl e, st') \<Rightarrow> (server_error e, st')
      | (Inr j, st') \<Rightarrow>
          (case thread_start b (job_id j) of
             Some e \<Rightarrow> (server_error e, st')
           | None \<Rightarrow>
               (JsonResponse
                  [(''job_id'', JInt (int (job_id j))),
                   (''progress_url'', JStr (''/jobs/progress/'' @ str_nat (job_id j) @ ''/''))] 200,
                st'\<lparr>threads := threads st' @ [job_id j]\<rparr>)))"

text \<open>
  \<^verbatim>\<open>create_job\<close> at time \<open>now\<close>: the response and the state it leaves. Before the job
  is created nothing raises outside the inner \<^verbatim>\<open>try\<close> of the row pre-scan, so the outer
  \<^verbatim>\<open>except\<close> clause is reached from the creation and the thread start only.
\<close>

definition create_job :: "backend \<Rightarrow> int \<Rightarrow> string \<Rightarrow> request \<Rightarrow> state \<Rightarrow> response \<times> state" where
  "create_job b now date_dir request' st =
     (case FILES request' ''file'' of
        None \<Rightarrow> (JsonResponse [(''error'', JStr ''No file uploaded'')] 400, st)
      | Some uploaded \<Rightarrow>
          let filename = name uploaded in
          if \<not> (endswith filename ''.xes'' \<or> endswith filename ''.csv'')
          then (JsonResponse [(''error'', JStr ''Only .xes and .csv files are supported'')] 400, st)
          else
            let cleaning_enabled' = (lower (dict_get (POST request') ''cleaning_enabled'' ''false'') = ''true'');
                mining_method' = dict_get (POST request') ''mining_method'' ''alpha'';
                project_name' = strip (dict_get (POST request') ''project_name'' [])
            in
            if project_name' = []
            then (JsonResponse [(''error'', JStr ''Project name is required'')] 400, st)
            else if mining_method' \<notin> set valid_methods
            then (JsonResponse
                    [(''error'', JStr (''Invalid mining method. Choose from: '' @ valid_methods_repr))] 400, st)
            else
              (case algorithm_denial now (user request') mining_method' of
                 Some r \<Rightarrow> (r, st)
               | None \<Rightarrow>
              (case project_limit_denial now (user request') (jobs st) of
                 Some r \<Rightarrow> (r, st)
               | None \<Rightarrow>
              (case row_limit_denial now (user request') uploaded of
                 Some r \<Rightarrow> (r, st)
               | None \<Rightarrow>
                 create_and_start b date_dir (user request') uploaded project_name'
                   cleaning_enabled' mining_method' st))))"

section \<open>The job runner: process_job (discovery/views.py)\<close>

subsection \<open>The external collaborators\<close>

text \<open>
  What the runner calls and does not own: pandas, pm4py, the cleaning and discovery
  packages, the file system and the image storage. Each call either returns or raises;
  a data frame is opaque to the runner, which only takes its length.
  \<^item> \<open>pd_read_csv\<close>, \<open>xes_import\<close>: the two loaders on a path; \<open>pm4py_import\<close> is the
    import of the XES importer modules, \<open>Some e\<close> when it raises \<^verbatim>\<open>ImportError\<close>.
  \<^item> \<open>smart_clean\<close>: the body of \<^verbatim>\<open>run_smart_clean\<close>.
  \<^item> \<open>discovery_setup\<close>: importing \<^verbatim>\<open>ProcessDiscovery\<close>, \<^verbatim>\<open>os.makedirs\<close> of the
    output directory and the constructor call; then the two miner services.
  \<^item> \<open>exists_after_mining\<close>, \<open>exists_after_render\<close>: \<^verbatim>\<open>os.path.exists\<close> once the miner,
    and once the renderer, has returned.
  \<^item> \<open>open_rb\<close>: opening a path for reading.
  \<^item> \<open>graphviz_path_added\<close>: the Graphviz directory that \<^verbatim>\<open>convert_pnml_to_image\<close>
    prepends to \<^verbatim>\<open>PATH\<close>, if it prepends one; \<open>render_svg\<close>: reading the PNML file,
    building the picture and saving it.
  \<^item> \<open>svg_save\<close>: reading the rendered file and storing it under the given name with
    \<^verbatim>\<open>output_map_svg.save(..., save=False)\<close>; it returns the stored path.
  \<^item> \<open>format_exc\<close>: \<^verbatim>\<open>traceback.format_exc()\<close> inside the handler of the exception.
\<close>

record 'df collaborators =
  pd_read_csv :: "string \<Rightarrow> exn + 'df"
  pm4py_import :: "exn option"
  xes_import :: "string \<Rightarrow> exn + 'df"
  df_len :: "'df \<Rightarrow> nat"
  smart_clean :: "'df \<Rightarrow> exn + 'df"
  discovery_setup :: "'df \<Rightarrow> string \<Rightarrow> exn option"
  alpha_miner_service :: "'df \<Rightarrow> string \<Rightarrow> exn option"
  heuristic_miner_service :: "'df \<Rightarrow> string \<Rightarrow> exn option"
  exists_after_mining :: "string \<Rightarrow> bool"
  open_rb :: "string \<Rightarrow> exn option"
  graphviz_path_added :: "string option"
  render_svg :: "string \<Rightarrow> string \<Rightarrow> exn option"
  exists_after_render :: "string \<Rightarrow> bool"
  svg_save :: "string \<Rightarrow> string \<Rightarrow> exn + string"
  format_exc :: "exn \<Rightarrow> string"
  MEDIA_ROOT :: string
  tempdir :: string

text \<open>\<^verbatim>\<open>os.path.join\<close> of two components (POSIX).\<close>

definition path_join :: "string \<Rightarrow> string \<Rightarrow> string" where
  "path_join a b =
     (if b \<noteq> [] \<and> hd b = CHR ''/'' then b
      else if a = [] \<or> last a = CHR ''/'' then a @ b
      else a @ ''/'' @ b)"

definition cross_mark :: string where
  "cross_mark = [CHR 0xE2, CHR 0x9D, CHR 0x8C]"

definition check_mark :: string where
  "check_mark = [CHR 0xE2, CHR 0x9C, CHR 0x85]"

subsection \<open>The pipeline stages\<close>

text \<open>
  Each stage returns the lines it prints to standard output and either its value or the
  exception it raises.
\<close>

text \<open>\<^verbatim>\<open>load_event_log\<close>: dispatch on the extension; any exception is printed and raised again.\<close>

definition load_event_log :: "'df collaborators \<Rightarrow> string \<Rightarrow> string list \<times> (exn + 'df)" where
  "load_event_log c file_path =
     (let r = (if endswith file_path ''.csv'' then pd_read_csv c file_path
               else if endswith file_path ''.xes''
               then (case pm4py_import c of
                       Some e \<Rightarrow> Inl (Exn ''ImportError''
                         (''pm4py is required to load XES files but is not installed. ''
                          @ ''Install it with: pip install pm4py'' @ [CHR 0x0A]
                          @ ''Original error: '' @ exc_msg e))
                     | None \<Rightarrow> xes_import c file_path)
               else Inl (Exn ''ValueError'' (''Unsupported file format: '' @ file_path)))
      in case r of
           Inl e \<Rightarrow>
             ([cross_mark @ '' Error loading event log from '' @ file_path,
               ''   Error type: '' @ exc_type e,
               ''   Error message: '' @ exc_msg e], Inl e)
         | Inr df \<Rightarrow> ([], Inr df))"

text \<open>\<^verbatim>\<open>run_smart_clean\<close>.\<close>

definition run_smart_clean :: "'df collaborators \<Rightarrow> 'df \<Rightarrow> exn + 'df" where
  "run_smart_clean c df = smart_clean c df"

text \<open>\<^verbatim>\<open>run_process_mining\<close>: the path of the PNML file the miner wrote.\<close>

definition run_process_mining :: "'df collaborators \<Rightarrow> 'df \<Rightarrow> string \<Rightarrow> nat \<Rightarrow> exn + string" where
  "run_process_mining c df method jid =
     (let output_dir = path_join (path_join (MEDIA_ROOT c) ''process_maps'') (str_nat jid) in
      case discovery_setup c df output_dir of
        Some e \<Rightarrow> Inl e
      | None \<Rightarrow>
          (let mined =
                 (if method = ''alpha''
                  then (case alpha_miner_service c df output_dir of
                          Some e \<Rightarrow> Inl e
                        | None \<Rightarrow> Inr (path_join output_dir (''alpha_job_'' @ str_nat jid @ ''.pnml'')))
                  else if method = ''heuristics''
                  then (case heuristic_miner_service c df output_dir of
                          Some e \<Rightarrow> Inl e
                        | None \<Rightarrow> Inr (path_join output_dir (''heuristic_job_'' @ str_nat jid @ ''.pnml'')))
                  else Inl (Exn ''ValueError'' (''Unknown mining method: '' @ method)))
           in case mined of
                Inl e \<Rightarrow> Inl e
              | Inr pnml_file \<Rightarrow>
                  if \<not> exists_after_mining c pnml_file
                  then Inl (Exn ''FileNotFoundError''
                              (''Process mining failed to create output file: '' @ pnml_file))
                  else Inr pnml_file))"

text \<open>
  \<^verbatim>\<open>convert_pnml_to_image\<close>: whatever the rendering raises is raised again as a plain
  \<^verbatim>\<open>Exception\<close> with the prefixed text.
\<close>

definition convert_pnml_to_image ::
  "'df collaborators \<Rightarrow> string \<Rightarrow> string \<Rightarrow> string list \<times> (exn + string)" where
  "convert_pnml_to_image c pnml_path output_image_path =
     (let out = (case graphviz_path_added c of
                   Some gv_path \<Rightarrow> [check_mark @ '' Added Graphviz path to environment: '' @ gv_path]
                 | None \<Rightarrow> [])
      in case render_svg c pnml_path output_image_path of
           Some e \<Rightarrow> (out, Inl (Exn ''Exception'' (''Failed to convert PNML to SVG: '' @ exc_msg e)))
         | None \<Rightarrow> (out, Inr output_image_path))"

subsection \<open>process_job\<close>

text \<open>
  The body of the \<^verbatim>\<open>try\<close> statement, block by block. A block takes the \<^verbatim>\<open>job\<close>
  object as it stands and returns it as the block leaves it, together with the rows it
  saved (one entry for every \<^verbatim>\<open>job.save()\<close>, in order), the lines it printed, and its
  value or the exception that ended it.
\<close>

text \<open>Lines 298 to 310: the job starts running and the file is loaded.\<close>

definition load_stage ::
  "'df collaborators \<Rightarrow> job \<Rightarrow> job \<times> job list \<times> string list \<times> (exn + 'df)" where
  "load_stage c job0 =
     (let job1 = job0\<lparr>status := ''running'', progress := 10, message := ''Loading event log file...''\<rparr>;
          file_path = original_file job1
      in case load_event_log c file_path of
           (out, Inl e) \<Rightarrow> (job1, [job1], out, Inl e)
         | (out, Inr df) \<Rightarrow>
             (let job2 = job1\<lparr>progress := 30,
                             message := ''Loaded '' @ str_nat (df_len c df) @ '' events from ''
                                        @ original_filename job1\<rparr>
              in (job2, [job1, job2], out, Inr df)))"

text \<open>Lines 312 to 321: the optional cleaning.\<close>

definition clean_stage ::
  "'df collaborators \<Rightarrow> job \<Rightarrow> 'df \<Rightarrow> job \<times> job list \<times> (exn + 'df)" where
  "clean_stage c job2 df =
     (if cleaning_enabled job2
      then (let job3 = job2\<lparr>progress := 40, message := ''Running data cleaning...''\<rparr>
            in case run_smart_clean c df of
                 Inl e \<Rightarrow> (job3, [job3], Inl e)
               | Inr df' \<Rightarrow>
                   (let job4 = job3\<lparr>progress := 60,
                                   message := ''Cleaning complete. '' @ str_nat (df_len c df')
                                              @ '' events after cleaning.''\<rparr>
                    in (job4, [job3, job4], Inr df')))
      else (job2, [], Inr df))"

text \<open>Lines 324 to 328: process mining.\<close>

definition mining_stage ::
  "'df collaborators \<Rightarrow> job \<Rightarrow> 'df \<Rightarrow> nat \<Rightarrow> job \<times> job list \<times> (exn + string)" where
  "mining_stage c job4 df jid =
     (let job5 = job4\<lparr>progress := 70,
                     message := ''Running '' @ get_mining_method_display job4 @ ''...''\<rparr>
      in (job5, [job5], run_process_mining c df (mining_method job5) jid))"

text \<open>
  Lines 340 to 360: the inner \<^verbatim>\<open>try\<close> around the rendering. Whatever is raised inside
  is caught here: three lines are printed and the job object stays as it was.
\<close>

definition visualize_stage ::
  "'df collaborators \<Rightarrow> job \<Rightarrow> string \<Rightarrow> nat \<Rightarrow> job \<times> string list" where
  "visualize_stage c job6 output_pnml_path jid =
     (let output_image_path = path_join (tempdir c) (''job_'' @ str_nat jid @ ''.svg'') in
      case convert_pnml_to_image c output_pnml_path output_image_path of
        (out, r) \<Rightarrow>
          (let saved =
                 (case r of
                    Inl e \<Rightarrow> Inl e
                  | Inr _ \<Rightarrow>
                      if exists_after_render c output_image_path
                      then (let image_filename = mining_method job6 @ ''_job_'' @ str_nat jid @ ''.svg'' in
                            case svg_save c output_image_path image_filename of
                              Inl e \<Rightarrow> Inl e
                            | Inr stored \<Rightarrow> Inr (job6\<lparr>output_map_svg := Some stored\<rparr>))
                      else Inr job6)
           in case saved of
                Inr job7 \<Rightarrow> (job7, out)
              | Inl graphviz_error \<Rightarrow>
                  (job6, out @
                     [warning_sign @ ''  Warning: Could not generate SVG image (Graphviz not available)'',
                      ''   Error: '' @ exc_msg graphviz_error,
                      ''   The process map PNML file is still available''])))"

text \<open>Lines 330 to 360: checkpoint 90 and the rendering, when the PNML file is there.\<close>

definition output_stage ::
  "'df collaborators \<Rightarrow> job \<Rightarrow> string \<Rightarrow> nat \<Rightarrow> job \<times> job list \<times> string list \<times> exn option" where
  "output_stage c job5 output_pnml_path jid =
     (if output_pnml_path \<noteq> [] \<and> exists_after_mining c output_pnml_path
      then (case open_rb c output_pnml_path of
              Some e \<Rightarrow> (job5, [], [], Some e)
            | None \<Rightarrow>
                (let job6 = job5\<lparr>progress := 90, message := ''Generating visualization...''\<rparr>
                 in case visualize_stage c job6 output_pnml_path jid of
                      (job7, out) \<Rightarrow> (job7, [job6], out, None)))
      else (job5, [], [], None))"

text \<open>The whole \<^verbatim>\<open>try\<close> body, from the first assignment to the last save.\<close>

definition try_body ::
  "'df collaborators \<Rightarrow> job \<Rightarrow> nat \<Rightarrow> job \<times> job list \<times> string list \<times> exn option" where
  "try_body c job0 jid =
     (case load_stage c job0 of
        (job2, s1, o1, Inl e) \<Rightarrow> (job2, s1, o1, Some e)
      | (job2, s1, o1, Inr df) \<Rightarrow>
     (case clean_stage c job2 df of
        (job4, s2, Inl e) \<Rightarrow> (job4, s1 @ s2, o1, Some e)
      | (job4, s2, Inr df') \<Rightarrow>
     (case mining_stage c job4 df' jid of
        (job5, s3, Inl e) \<Rightarrow> (job5, s1 @ s2 @ s3, o1, Some e)
      | (job5, s3, Inr output_pnml_path) \<Rightarrow>
     (case output_stage c job5 output_pnml_path jid of
        (job7, s4, o4, Some e) \<Rightarrow> (job7, s1 @ s2 @ s3 @ s4, o1 @ o4, Some e)
      | (job7, s4, o4, None) \<Rightarrow>
          (let job8 = job7\<lparr>status := ''done'', progress := 100, message := ''Processing complete!''\<rparr>
           in (job8, s1 @ s2 @ s3 @ s4 @ [job8], o1 @ o4, None))))))"

text \<open>
  What one run of the runner leaves behind: the rows it saved, in order, the lines it
  printed, and the exception that leaves \<^verbatim>\<open>process_job\<close>, if one does.
\<close>

record outcome =
  saves :: "job list"
  printed :: "string list"
  escaped :: "exn option"

text \<open>
  \<^verbatim>\<open>process_job(job_id)\<close> on the job table \<open>js\<close>. When no row has the id, \<^verbatim>\<open>get\<close> raises
  with \<^verbatim>\<open>job\<close> still \<^verbatim>\<open>None\<close>, and the handler does nothing. Otherwise the handler turns
  an exception of the body into a last save of the job in state \<^verbatim>\<open>error\<close>. Saving a row
  is taken to succeed, so the handler itself raises nothing.
\<close>

definition process_job :: "'df collaborators \<Rightarrow> job list \<Rightarrow> nat \<Rightarrow> outcome" where
  "process_job c js jid =
     (case find (\<lambda>j. job_id j = jid) js of
        None \<Rightarrow> \<lparr>saves = [], printed = [], escaped = None\<rparr>
      | Some job0 \<Rightarrow>
          (case try_body c job0 jid of
             (job', ss, out, None) \<Rightarrow> \<lparr>saves = ss, printed = out, escaped = None\<rparr>
           | (job', ss, out, Some e) \<Rightarrow>
               (let failed = job'\<lparr>status := ''error'', progress := 0, message := ''Processing failed'',
                                  error_message := exc_msg e @ [CHR 0x0A, CHR 0x0A] @ format_exc c e\<rparr>
                in \<lparr>saves = ss @ [failed], printed = out, escaped = None\<rparr>)))"

text \<open>\<^verbatim>\<open>job.save()\<close> on the table: the row with the job's key is replaced, or inserted.\<close>

definition save :: "job \<Rightarrow> job list \<Rightarrow> job list" where
  "save j js =
     (if \<exists>r \<in> set js. job_id r = job_id j
      then map (\<lambda>r. if job_id r = job_id j then j else r) js
      else js @ [j])"

text \<open>The job table after the run: the saves applied in order.\<close>

definition run_job :: "'df collaborators \<Rightarrow> job list \<Rightarrow> nat \<Rightarrow> job list" where
  "run_job c js jid = foldl (\<lambda>tbl j. save j tbl) js (saves (process_job c js jid))"

section \<open>The job API: job_status (discovery/views.py)\<close>

text \<open>
  \<^verbatim>\<open>job_status\<close> for the authenticated user \<open>u\<close>: the lookup is by key and owner at once,
  and \<^verbatim>\<open>DoesNotExist\<close> is answered with 404. Nothing else in the body raises, so the
  clause with status 500 has no branch.
\<close>

definition job_status :: "user \<Rightarrow> nat \<Rightarrow> job list \<Rightarrow> response" where
  "job_status u jid js =
     (case find (\<lambda>j. job_id j = jid \<and> user_id j = pk u) js of
        None \<Rightarrow> JsonResponse [(''error'', JStr ''Job not found'')] 404
      | Some j \<Rightarrow>
          (let response_data = [(''status'', JStr (status j)), (''progress'', JInt (progress j)),
                                (''message'', JStr (message j))];
               response_data1 =
                 (if status j = ''done''
                  then response_data @ [(''redirect_url'', JStr ''/dashboard/'')] @
                         (case get_output_url j of
                            Some output_url \<Rightarrow>
                              if output_url \<noteq> [] then [(''output_url'', JStr output_url)] else []
                          | None \<Rightarrow> [])
                  else response_data);
               response_data2 =
                 (if status j = ''error''
                  then response_data1 @ [(''error_message'', JStr (error_message j))]
                  else response_data1)
           in JsonResponse response_data2 200))"

section \<open>Notions used to state the properties\<close>

text \<open>
  A request passes the four validations of \<^verbatim>\<open>create_job\<close> (lines 61 to 83) with the
  uploaded file \<open>f\<close>, the stripped project name \<open>pn\<close> and the mining method \<open>m\<close>.
\<close>

definition validated :: "request \<Rightarrow> uploaded_file \<Rightarrow> string \<Rightarrow> string \<Rightarrow> bool" where
  "validated rq f pn m =
     (FILES rq ''file'' = Some f \<and>
      (endswith (name f) ''.xes'' \<or> endswith (name f) ''.csv'') \<and>
      strip (dict_get (POST rq) ''project_name'' []) = pn \<and> pn \<noteq> [] \<and>
      dict_get (POST rq) ''mining_method'' ''alpha'' = m \<and> m \<in> set valid_methods)"

text \<open>
  Creating the job goes through: the storage stores the upload, the database inserts the
  row, and the thread starts.
\<close>

definition creation_succeeds ::
  "backend \<Rightarrow> string \<Rightarrow> user \<Rightarrow> uploaded_file \<Rightarrow> string \<Rightarrow> bool \<Rightarrow> string \<Rightarrow> state \<Rightarrow> bool" where
  "creation_succeeds b date_dir u f pn ce m st =
     (case storage_save b (''uploads/event_logs/'' @ date_dir @ name f) f of
        Inl e \<Rightarrow> False
      | Inr path \<Rightarrow>
          db_insert b (new_job path u f pn ce m st) = None \<and>
          thread_start b (next_id (jobs st)) = None)"

text \<open>
  The three fallible stages of the runner on a job, in order: the exception of the first
  one of load, clean and discover that raises, or the path of the PNML file when all
  three succeed.
\<close>

definition stages_result :: "'df collaborators \<Rightarrow> job \<Rightarrow> nat \<Rightarrow> exn + string" where
  "stages_result c job0 jid =
     (case snd (load_event_log c (original_file job0)) of
        Inl e \<Rightarrow> Inl e
      | Inr df \<Rightarrow>
          (case (if cleaning_enabled job0 then run_smart_clean c df else Inr df) of
             Inl e \<Rightarrow> Inl e
           | Inr df' \<Rightarrow> run_process_mining c df' (mining_method job0) jid))"

text \<open>The status and the progress of a saved row.\<close>

definition checkpoint :: "job \<Rightarrow> string \<times> int" where
  "checkpoint j = (status j, progress j)"

text \<open>The checkpoints of a run in which no stage fails, up to the rendering.\<close>

definition running_checkpoints :: "bool \<Rightarrow> (string \<times> int) list" where
  "running_checkpoints cleaning =
     [(''running'', 10), (''running'', 30)] @
     (if cleaning then [(''running'', 40), (''running'', 60)] else []) @
     [(''running'', 70), (''running'', 90)]"

text \<open>
  Two rows describe the same request: they agree on every field the runner never
  assigns (key, owner, file, project, options, raster image) and on the error detail.
\<close>

definition same_request :: "job \<Rightarrow> job \<Rightarrow> bool" where
  "same_request a b =
     (job_id b = job_id a \<and> user_id b = user_id a \<and> original_file b = original_file a \<and>
      original_filename b = original_filename a \<and> project_name b = project_name a \<and>
      cleaning_enabled b = cleaning_enabled a \<and> mining_method b = mining_method a \<and>
      error_message b = error_message a \<and> output_map_image b = output_map_image a)"

section \<open>Sample data for the worked instances\<close>

text \<open>
  A free user with the model's default limits who may only use the Alpha Miner, and a
  premium user with a lifetime license.
\<close>

definition free_user :: user where
  "free_user = \<lparr>pk = 1, license_type = ''free'', license_expires_at = None,
                 max_log_rows = 1000, allowed_algorithms = [''alpha''], max_projects = 3\<rparr>"

definition premium_user :: user where
  "premium_user = \<lparr>pk = 2, license_type = ''premium'', license_expires_at = None,
                    max_log_rows = 0, allowed_algorithms = [], max_projects = 0\<rparr>"

definition upload :: "string \<Rightarrow> nat option \<Rightarrow> uploaded_file" where
  "upload nm rows = \<lparr>name = nm, csv_rows = rows\<rparr>"

definition form_request :: "user \<Rightarrow> uploaded_file \<Rightarrow> string \<Rightarrow> string \<Rightarrow> request" where
  "form_request u f pn m =
     \<lparr>user = u, FILES = [''file'' \<mapsto> f],
      POST = [''project_name'' \<mapsto> pn, ''mining_method'' \<mapsto> m, ''cleaning_enabled'' \<mapsto> ''true'']\<rparr>"

definition form_request_no_method :: "user \<Rightarrow> uploaded_file \<Rightarrow> string \<Rightarrow> request" where
  "form_request_no_method u f pn =
     \<lparr>user = u, FILES = [''file'' \<mapsto> f], POST = [''project_name'' \<mapsto> pn]\<rparr>"

definition stored_job :: "nat \<Rightarrow> nat \<Rightarrow> string \<Rightarrow> string \<Rightarrow> int \<Rightarrow> job" where
  "stored_job i uid pn st p =
     \<lparr>job_id = i, user_id = uid, original_file = ''uploads/event_logs/2025/01/01/log.csv'',
      original_filename = ''log.csv'', project_name = pn, cleaning_enabled = True,
      mining_method = ''alpha'', status = st, progress = p, message = [], error_message = [],
      output_map_image = None, output_map_svg = None\<rparr>"

definition empty_state :: state where
  "empty_state = \<lparr>jobs = [], storage = [], threads = []\<rparr>"

text \<open>
  A state in which the free user (key 1) already has jobs in three projects, one of them
  twice, and a job without a project name; another user (key 2) has a job in a project
  of its own.
\<close>

definition three_projects :: state where
  "three_projects =
     \<lparr>jobs = [stored_job 1 1 ''p1'' ''done'' 100, stored_job 2 1 ''p2'' ''done'' 100,
              stored_job 3 1 ''p3'' ''done'' 100, stored_job 4 1 ''p1'' ''done'' 100,
              stored_job 5 2 ''p9'' ''done'' 100, stored_job 6 1 [] ''done'' 100],
      storage = [], threads = []\<rparr>"

text \<open>
  A storage in the manner of Django's file system storage on an empty directory, for a
  file field of at most 100 characters. A name that fits is kept. A longer one gets an
  underscore and seven characters (random in Django, fixed here) after the file root,
  which is the file name up to its first dot, and the root is cut by the excess; when
  nothing of the root is left, \<^verbatim>\<open>SuspiciousFileOperation\<close> is raised.
\<close>

definition sample_storage_save :: "string \<Rightarrow> uploaded_file \<Rightarrow> exn + string" where
  "sample_storage_save nm f =
     (if length nm \<le> 100 then Inr nm
      else (let file_name = rev (takeWhile (\<lambda>c. c \<noteq> CHR ''/'') (rev nm));
                dir_name = take (length nm - length file_name) nm;
                file_root = takeWhile (\<lambda>c. c \<noteq> CHR ''.'') file_name;
                file_ext = dropWhile (\<lambda>c. c \<noteq> CHR ''.'') file_name;
                truncation = (length nm + 8) - 100
            in if length file_root \<le> truncation
               then Inl (Exn ''SuspiciousFileOperation''
                           ''Storage can not find an available filename'')
               else Inr (dir_name @ take (length file_root - truncation) file_root
                         @ ''_abcdefg'' @ file_ext)))"

text \<open>A backend with that storage, whose database and threads work.\<close>

definition sample_backend :: backend where
  "sample_backend =
     \<lparr>storage_save = sample_storage_save, db_insert = (\<lambda>j. None), thread_start = (\<lambda>i. None)\<rparr>"

text \<open>A file name of 85 characters whose root is the single letter before its first dot.\<close>

definition dotted_name :: string where
  "dotted_name = ''a.b.b.b.b.b.b.b.b.b.b.b.b.b.b.b.b.b.b.b.b.b.b.b.b.b.b.b.b.b.b.b.b.b.b.b.b.b.b.b.b.csv''"

text \<open>
  Collaborators over data frames that are just their row count. Loading gives 5000 rows,
  cleaning keeps 4900, both miners write their file; the renderer and the image storage
  are parameters of the sample.
\<close>

definition sample_collaborators ::
  "(nat \<Rightarrow> exn + nat) \<Rightarrow> exn option \<Rightarrow> exn option \<Rightarrow> nat collaborators" where
  "sample_collaborators cleaner miner renderer =
     \<lparr>pd_read_csv = (\<lambda>p. Inr 5000), pm4py_import = None, xes_import = (\<lambda>p. Inr 5000),
      df_len = (\<lambda>n. n), smart_clean = cleaner,
      discovery_setup = (\<lambda>df dir. None), alpha_miner_service = (\<lambda>df dir. miner),
      heuristic_miner_service = (\<lambda>df dir. miner), exists_after_mining = (\<lambda>p. True),
      open_rb = (\<lambda>p. None), graphviz_path_added = None,
      render_svg = (\<lambda>p q. renderer), exists_after_render = (\<lambda>p. True),
      svg_save = (\<lambda>p n. Inr (''outputs/process_maps/2025/01/01/'' @ n)),
      format_exc = (\<lambda>e. ''Traceback (most recent call last): '' @ exc_type e @ '': '' @ exc_msg e),
      MEDIA_ROOT = ''/srv/media'', tempdir = ''/tmp''\<rparr>"

section \<open>Facts about create_job\<close>

text \<open>The four validations, each answered with status 400 and no change of state.\<close>

lemma create_job_no_file:
  "FILES rq ''file'' = None \<Longrightarrow>
   create_job b now d rq st = (JsonResponse [(''error'', JStr ''No file uploaded'')] 400, st)"
  by (simp add: create_job_def)

lemma create_job_bad_extension:
  "FILES rq ''file'' = Some f \<Longrightarrow> \<not> endswith (name f) ''.xes'' \<Longrightarrow> \<not> endswith (name f) ''.csv'' \<Longrightarrow>
   create_job b now d rq st =
     (JsonResponse [(''error'', JStr ''Only .xes and .csv files are supported'')] 400, st)"
  by (simp add: create_job_def Let_def)

lemma create_job_no_project_name:
  "FILES rq ''file'' = Some f \<Longrightarrow> endswith (name f) ''.xes'' \<or> endswith (name f) ''.csv'' \<Longrightarrow>
   strip (dict_get (POST rq) ''project_name'' []) = [] \<Longrightarrow>
   create_job b now d rq st = (JsonResponse [(''error'', JStr ''Project name is required'')] 400, st)"
  by (auto simp: create_job_def Let_def)

lemma create_job_invalid_method:
  "FILES rq ''file'' = Some f \<Longrightarrow> endswith (name f) ''.xes'' \<or> endswith (name f) ''.csv'' \<Longrightarrow>
   strip (dict_get (POST rq) ''project_name'' []) \<noteq> [] \<Longrightarrow>
   dict_get (POST rq) ''mining_method'' ''alpha'' \<notin> set valid_methods \<Longrightarrow>
   create_job b now d rq st =
     (JsonResponse [(''error'', JStr (''Invalid mining method. Choose from: '' @ valid_methods_repr))] 400, st)"
  by (auto simp: create_job_def Let_def)

text \<open>
  A validated request reaches the three license checks, in the order in which the source
  lists them, and the job is created only after all three let it through.
\<close>

lemma create_job_validated:
  assumes "validated rq f pn m"
  shows "create_job b now d rq st =
     (case algorithm_denial now (user rq) m of
        Some r \<Rightarrow> (r, st)
      | None \<Rightarrow>
     (case project_limit_denial now (user rq) (jobs st) of
        Some r \<Rightarrow> (r, st)
      | None \<Rightarrow>
     (case row_limit_denial now (user rq) f of
        Some r \<Rightarrow> (r, st)
      | None \<Rightarrow>
          create_and_start b d (user rq) f pn
            (lower (dict_get (POST rq) ''cleaning_enabled'' ''false'') = ''true'') m st)))"
  using assms unfolding validated_def create_job_def
  by (auto simp: Let_def split: option.splits)

lemma create_job_past_extension:
  assumes "FILES rq ''file'' = Some f"
      and "endswith (name f) ''.xes'' \<or> endswith (name f) ''.csv''"
  shows "create_job b now d rq st = (JsonResponse [(''error'', JStr ''Project name is required'')] 400, st) \<or>
         create_job b now d rq st =
           (JsonResponse [(''error'', JStr (''Invalid mining method. Choose from: '' @ valid_methods_repr))] 400, st) \<or>
         (\<exists>pn m. validated rq f pn m)"
proof (cases "strip (dict_get (POST rq) ''project_name'' []) = []")
  case True
  with assms show ?thesis by (simp add: create_job_no_project_name)
next
  case pn: False
  show ?thesis
  proof (cases "dict_get (POST rq) ''mining_method'' ''alpha'' \<in> set valid_methods")
    case True
    with pn assms have "validated rq f (strip (dict_get (POST rq) ''project_name'' []))
                          (dict_get (POST rq) ''mining_method'' ''alpha'')"
      by (simp add: validated_def)
    then show ?thesis by blast
  next
    case False
    with pn assms show ?thesis by (simp add: create_job_invalid_method)
  qed
qed

text \<open>A request that is not validated is answered with status 400 and changes nothing.\<close>

lemma create_job_not_validated:
  assumes "\<not> (\<exists>f pn m. validated rq f pn m)"
  shows "status_code (fst (create_job b now d rq st)) = 400 \<and> snd (create_job b now d rq st) = st"
proof (cases "FILES rq ''file''")
  case None
  then show ?thesis by (simp add: create_job_no_file)
next
  case (Some f)
  show ?thesis
  proof (cases "endswith (name f) ''.xes'' \<or> endswith (name f) ''.csv''")
    case False
    with Some show ?thesis by (simp add: create_job_bad_extension)
  next
    case True
    from create_job_past_extension [OF Some True, of b now d st] assms show ?thesis
      by auto
  qed
qed

text \<open>The three denials have status 403.\<close>

lemma algorithm_denial_status: "algorithm_denial now u m = Some r \<Longrightarrow> status_code r = 403"
  by (auto simp: algorithm_denial_def Let_def split: if_splits)

lemma project_limit_denial_status: "project_limit_denial now u js = Some r \<Longrightarrow> status_code r = 403"
  by (auto simp: project_limit_denial_def Let_def split: if_splits)

lemma row_limit_denial_status: "row_limit_denial now u f = Some r \<Longrightarrow> status_code r = 403"
  by (auto simp: row_limit_denial_def Let_def split: if_splits option.splits)

text \<open>
  Creating the job and starting its thread: the answer is 200 or 500, and it is 200, with
  the row, the file and the thread added, exactly when all three steps go through. What
  is in the table and in the storage before stays there.
\<close>

lemma create_and_start_succeeds:
  assumes "creation_succeeds b d u f pn ce m st"
  shows "status_code (fst (create_and_start b d u f pn ce m st)) = 200 \<and>
         length (jobs (snd (create_and_start b d u f pn ce m st))) = Suc (length (jobs st)) \<and>
         length (storage (snd (create_and_start b d u f pn ce m st))) = Suc (length (storage st)) \<and>
         threads (snd (create_and_start b d u f pn ce m st)) = threads st @ [next_id (jobs st)]"
  using assms
  by (auto simp: creation_succeeds_def create_and_start_def objects_create_def new_job_def Let_def
      split: sum.splits option.splits)

lemma create_and_start_fails:
  assumes "\<not> creation_succeeds b d u f pn ce m st"
  shows "status_code (fst (create_and_start b d u f pn ce m st)) = 500 \<and>
         threads (snd (create_and_start b d u f pn ce m st)) = threads st"
  using assms
  by (auto simp: creation_succeeds_def create_and_start_def objects_create_def new_job_def Let_def
      server_error_def split: sum.splits option.splits)

lemma create_and_start_status:
  "status_code (fst (create_and_start b d u f pn ce m st)) = 200 \<or>
   status_code (fst (create_and_start b d u f pn ce m st)) = 500"
  using create_and_start_succeeds [of b d u f pn ce m st] create_and_start_fails [of b d u f pn ce m st]
  by blast

lemma create_and_start_200:
  assumes "status_code (fst (create_and_start b d u f pn ce m st)) = 200"
  shows "creation_succeeds b d u f pn ce m st"
  using assms create_and_start_fails [of b d u f pn ce m st] by auto

lemma create_job_validated_status:
  assumes "validated rq f pn m"
  shows "status_code (fst (create_job b now d rq st)) = 403 \<or>
         status_code (fst (create_job b now d rq st)) = 200 \<or>
         status_code (fst (create_job b now d rq st)) = 500"
  using create_and_start_status
    [of b d "user rq" f pn "lower (dict_get (POST rq) ''cleaning_enabled'' ''false'') = ''true''" m st]
  by (auto simp: create_job_validated [OF assms] algorithm_denial_status
      project_limit_denial_status row_limit_denial_status split: option.splits)

text \<open>A response with status 403 comes from one of the three checks and changes nothing.\<close>

lemma create_job_403_cases:
  assumes "status_code (fst (create_job b now d rq st)) = 403"
  shows "snd (create_job b now d rq st) = st \<and>
         (\<exists>f pn m. validated rq f pn m \<and>
           (algorithm_denial now (user rq) m \<noteq> None \<or>
            project_limit_denial now (user rq) (jobs st) \<noteq> None \<or>
            row_limit_denial now (user rq) f \<noteq> None))"
proof -
  from assms create_job_not_validated [of rq b now d st]
  obtain f pn m where v: "validated rq f pn m"
    by fastforce
  from assms create_and_start_status
    [of b d "user rq" f pn "lower (dict_get (POST rq) ''cleaning_enabled'' ''false'') = ''true''" m st]
  have "snd (create_job b now d rq st) = st \<and>
        (algorithm_denial now (user rq) m \<noteq> None \<or>
         project_limit_denial now (user rq) (jobs st) \<noteq> None \<or>
         row_limit_denial now (user rq) f \<noteq> None)"
    by (auto simp: create_job_validated [OF v] split: option.splits)
  with v show ?thesis by blast
qed

text \<open>Unfolding the sample data and evaluating the string functions.\<close>

lemmas sample_defs = free_user_def premium_user_def upload_def form_request_def
  form_request_no_method_def stored_job_def

lemmas string_defs = lower_def to_lower_def to_upper_def is_ascii_lower_def is_ascii_upper_def
  title_def endswith_def char_of_def

lemma strip_p4: "strip ''p4'' = ''p4''"
  by (simp add: strip_def whitespace_def lstrip_with.simps)

lemma validated_form_request:
  "m \<in> set valid_methods \<Longrightarrow>
   validated (form_request u (upload ''log.csv'' rows) ''p4'' m) (upload ''log.csv'' rows) ''p4'' m"
  by (simp add: validated_def sample_defs string_defs dict_get_def strip_p4)

lemma sample_creation_succeeds:
  "creation_succeeds sample_backend ''2025/01/01/'' u (upload ''log.csv'' rows) pn ce m st"
  by (simp add: creation_succeeds_def sample_backend_def sample_storage_save_def upload_def)

lemma free_user_not_premium: "\<not> is_premium 0 free_user"
  by (simp add: is_premium_def free_user_def LICENSE_PREMIUM_def)

section \<open>Algorithm access\<close>

text \<open>
  C6: For a valid mining method (alpha or heuristics), \<open>can_use_algorithm\<close> allows a
  premium user unconditionally, and allows a free user exactly when the method is in the
  user's \<open>allowed_algorithms\<close> list or that list is empty. A validated request whose
  method the user may not use is answered with status 403 and leaves the state as it
  was (no job row, no stored file, no thread), and the message of the response lists the
  user's permitted algorithms, title-cased and separated by commas. A validated request
  whose method the user may use is not denied by the algorithm check: \<open>create_job\<close>
  goes on to the project and row checks, and answers 200 when those pass and the
  creation goes through.
\<close>

theorem algorithm_access_check:
  assumes "m \<in> set valid_methods"
  shows "(is_premium now u \<longrightarrow> can_use_algorithm now u m) \<and>
         (\<not> is_premium now u \<longrightarrow>
            (can_use_algorithm now u m \<longleftrightarrow> (m \<in> set (allowed_algorithms u) \<or> allowed_algorithms u = []))) \<and>
         (validated rq f pn m \<and> user rq = u \<and> \<not> can_use_algorithm now u m \<longrightarrow>
            create_job b now d rq st =
              (JsonResponse
                 [(''error'', JStr (warning_sign @ '' You do not have access to the '' @ title m @ '' algorithm.'')),
                  (''message'', JStr (''Your plan allows: '' @ join '', '' (map title (allowed_algorithms u))
                                     @ ''. Please upgrade to Premium for access to all algorithms.'')),
                  upgrade_url] 403, st)) \<and>
         (validated rq f pn m \<and> user rq = u \<and> can_use_algorithm now u m \<longrightarrow>
            algorithm_denial now u m = None \<and>
            create_job b now d rq st =
              (case project_limit_denial now u (jobs st) of
                 Some r \<Rightarrow> (r, st)
               | None \<Rightarrow>
                   (case row_limit_denial now u f of
                      Some r \<Rightarrow> (r, st)
                    | None \<Rightarrow>
                        create_and_start b d u f pn
                          (lower (dict_get (POST rq) ''cleaning_enabled'' ''false'') = ''true'') m st)) \<and>
            (project_limit_denial now u (jobs st) = None \<and> row_limit_denial now u f = None \<and>
             creation_succeeds b d u f pn
               (lower (dict_get (POST rq) ''cleaning_enabled'' ''false'') = ''true'') m st \<longrightarrow>
               status_code (fst (create_job b now d rq st)) = 200))"
proof -
  have premium: "can_use_algorithm now u m" if "is_premium now u"
    using that assms
    by (auto simp: can_use_algorithm_def get_allowed_algorithms_def valid_methods_def
        MINING_METHOD_CHOICES_def ALGORITHM_CHOICES_def)
  have free: "can_use_algorithm now u m \<longleftrightarrow> (m \<in> set (allowed_algorithms u) \<or> allowed_algorithms u = [])"
    if "\<not> is_premium now u"
    using that assms
    by (auto simp: can_use_algorithm_def get_allowed_algorithms_def valid_methods_def
        MINING_METHOD_CHOICES_def ALGORITHM_CHOICES_def)
  have denied: "create_job b now d rq st =
              (JsonResponse
                 [(''error'', JStr (warning_sign @ '' You do not have access to the '' @ title m @ '' algorithm.'')),
                  (''message'', JStr (''Your plan allows: '' @ join '', '' (map title (allowed_algorithms u))
                                     @ ''. Please upgrade to Premium for access to all algorithms.'')),
                  upgrade_url] 403, st)"
    if h: "validated rq f pn m \<and> user rq = u \<and> \<not> can_use_algorithm now u m"
  proof -
    from h have v: "validated rq f pn m" and u: "user rq = u" and n: "\<not> can_use_algorithm now u m"
      by simp_all
    from n assms have "get_allowed_algorithms now u = allowed_algorithms u"
      by (auto simp: can_use_algorithm_def get_allowed_algorithms_def valid_methods_def
          MINING_METHOD_CHOICES_def ALGORITHM_CHOICES_def split: if_splits)
    with n u show ?thesis
      by (simp add: create_job_validated [OF v] algorithm_denial_def Let_def)
  qed
  have allowed: "algorithm_denial now u m = None \<and>
            create_job b now d rq st =
              (case project_limit_denial now u (jobs st) of
                 Some r \<Rightarrow> (r, st)
               | None \<Rightarrow>
                   (case row_limit_denial now u f of
                      Some r \<Rightarrow> (r, st)
                    | None \<Rightarrow>
                        create_and_start b d u f pn
                          (lower (dict_get (POST rq) ''cleaning_enabled'' ''false'') = ''true'') m st)) \<and>
            (project_limit_denial now u (jobs st) = None \<and> row_limit_denial now u f = None \<and>
             creation_succeeds b d u f pn
               (lower (dict_get (POST rq) ''cleaning_enabled'' ''false'') = ''true'') m st \<longrightarrow>
               status_code (fst (create_job b now d rq st)) = 200)"
    if h: "validated rq f pn m \<and> user rq = u \<and> can_use_algorithm now u m"
  proof -
    from h have v: "validated rq f pn m" and u: "user rq = u" and a: "can_use_algorithm now u m"
      by simp_all
    from a have none: "algorithm_denial now u m = None"
      by (simp add: algorithm_denial_def)
    then have eq: "create_job b now d rq st =
              (case project_limit_denial now u (jobs st) of
                 Some r \<Rightarrow> (r, st)
               | None \<Rightarrow>
                   (case row_limit_denial now u f of
                      Some r \<Rightarrow> (r, st)
                    | None \<Rightarrow>
                        create_and_start b d u f pn
                          (lower (dict_get (POST rq) ''cleaning_enabled'' ''false'') = ''true'') m st))"
      by (simp add: create_job_validated [OF v, unfolded u])
    have "status_code (fst (create_job b now d rq st)) = 200"
      if "project_limit_denial now u (jobs st) = None \<and> row_limit_denial now u f = None \<and>
          creation_succeeds b d u f pn
            (lower (dict_get (POST rq) ''cleaning_enabled'' ''false'') = ''true'') m st"
      using that by (simp add: eq create_and_start_succeeds)
    with none eq show ?thesis by blast
  qed
  from premium free denied allowed show ?thesis
    by blast
qed

text \<open>
  The free sample user, allowed only \<open>alpha\<close>, asks for \<open>heuristics\<close>: status 403, the
  message names Alpha, and the state is unchanged. The same user asking for \<open>alpha\<close>
  gets the job created.
\<close>

theorem algorithm_access_check_witness:
  "''heuristics'' \<in> set valid_methods \<and> \<not> is_premium 0 free_user \<and>
   \<not> can_use_algorithm 0 free_user ''heuristics'' \<and>
   create_job sample_backend 0 ''2025/01/01/''
     (form_request free_user (upload ''log.csv'' (Some 5)) ''p4'' ''heuristics'') empty_state =
     (JsonResponse
        [(''error'', JStr (warning_sign @ '' You do not have access to the Heuristics algorithm.'')),
         (''message'', JStr ''Your plan allows: Alpha. Please upgrade to Premium for access to all algorithms.''),
         upgrade_url] 403, empty_state) \<and>
   can_use_algorithm 0 free_user ''alpha'' \<and>
   status_code (fst (create_job sample_backend 0 ''2025/01/01/''
     (form_request free_user (upload ''log.csv'' (Some 5)) ''p4'' ''alpha'') empty_state)) = 200"
proof -
  let ?f = "upload ''log.csv'' (Some 5)"
  let ?rq = "form_request free_user ?f ''p4'' ''heuristics''"
  let ?rq' = "form_request free_user ?f ''p4'' ''alpha''"
  have m: "''heuristics'' \<in> set valid_methods" and m': "''alpha'' \<in> set valid_methods"
    by (simp_all add: valid_methods_def MINING_METHOD_CHOICES_def)
  note p = free_user_not_premium
  have n: "\<not> can_use_algorithm 0 free_user ''heuristics''"
    using p by (simp add: can_use_algorithm_def get_allowed_algorithms_def free_user_def)
  have a: "can_use_algorithm 0 free_user ''alpha''"
    using p by (simp add: can_use_algorithm_def get_allowed_algorithms_def free_user_def)
  have v: "validated ?rq ?f ''p4'' ''heuristics''"
    using m by (rule validated_form_request)
  have v': "validated ?rq' ?f ''p4'' ''alpha''"
    using m' by (rule validated_form_request)
  have u: "user ?rq = free_user" and u': "user ?rq' = free_user"
    by (simp_all add: form_request_def)
  have proj: "project_limit_denial 0 free_user (jobs empty_state) = None"
    using p by (simp add: project_limit_denial_def project_count_def empty_state_def free_user_def Let_def)
  have row: "row_limit_denial 0 free_user ?f = None"
    using p by (simp add: row_limit_denial_def read_csv_nrows_def upload_def endswith_def
        free_user_def Let_def)
  note cs = sample_creation_succeeds
    [of free_user "Some 5" "''p4''" "lower (dict_get (POST ?rq') ''cleaning_enabled'' ''false'') = ''true''"
      "''alpha''" empty_state]
  from algorithm_access_check [OF m, where now = 0 and u = free_user and rq = ?rq and f = ?f
      and pn = "''p4''" and b = sample_backend and d = "''2025/01/01/''" and st = empty_state] v u n
  have denied: "create_job sample_backend 0 ''2025/01/01/'' ?rq empty_state =
     (JsonResponse
        [(''error'', JStr (warning_sign @ '' You do not have access to the '' @ title ''heuristics'' @ '' algorithm.'')),
         (''message'', JStr (''Your plan allows: '' @ join '', '' (map title (allowed_algorithms free_user))
                            @ ''. Please upgrade to Premium for access to all algorithms.'')),
         upgrade_url] 403, empty_state)"
    by blast
  from algorithm_access_check [OF m', where now = 0 and u = free_user and rq = ?rq' and f = ?f
      and pn = "''p4''" and b = sample_backend and d = "''2025/01/01/''" and st = empty_state]
    v' u' a proj row cs
  have ok: "status_code (fst (create_job sample_backend 0 ''2025/01/01/'' ?rq' empty_state)) = 200"
    by blast
  have "title ''heuristics'' = ''Heuristics''" "title ''alpha'' = ''Alpha''"
    by code_simp+
  with denied ok show ?thesis using m p n a
    by (simp add: free_user_def)
qed

section \<open>Status polling\<close>

text \<open>
  C8: For every authenticated user and every job id, \<open>job_status\<close> gives the same
  response when no job has the id and when the jobs with the id belong to other users:
  status 404 with a body that holds the generic error and nothing else. Whatever the
  table, the status of the response is never 403.
\<close>

theorem job_status_not_found_indistinguishable:
  assumes absent: "\<forall>j \<in> set js1. job_id j \<noteq> jid"
      and present: "\<exists>j \<in> set js2. job_id j = jid"
      and foreign: "\<forall>j \<in> set js2. job_id j = jid \<longrightarrow> user_id j \<noteq> pk u"
  shows "job_status u jid js1 = JsonResponse [(''error'', JStr ''Job not found'')] 404 \<and>
         job_status u jid js2 = job_status u jid js1 \<and>
         status_code (job_status u jid js) \<noteq> 403"
proof -
  have a: "find (\<lambda>j. job_id j = jid \<and> user_id j = pk u) js1 = None"
    using absent by (auto simp: find_None_iff)
  have b: "find (\<lambda>j. job_id j = jid \<and> user_id j = pk u) js2 = None"
    using foreign by (auto simp: find_None_iff)
  have c: "status_code (job_status u jid js) \<noteq> 403"
    by (simp add: job_status_def Let_def split: option.splits)
  from a b c show ?thesis
    by (simp add: job_status_def)
qed

text \<open>
  The premium sample user (key 2) asks for job 1 of the free user (key 1): the response
  is the one for an empty table. The owner gets status 200.
\<close>

theorem job_status_not_found_indistinguishable_witness:
  "job_status premium_user 1 [] = JsonResponse [(''error'', JStr ''Job not found'')] 404 \<and>
   job_status premium_user 1 [stored_job 1 1 ''p1'' ''done'' 100] = job_status premium_user 1 [] \<and>
   status_code (job_status free_user 1 [stored_job 1 1 ''p1'' ''done'' 100]) = 200"
proof -
  have a: "\<forall>j \<in> set ([] :: job list). job_id j \<noteq> 1" by simp
  have b: "\<exists>j \<in> set [stored_job 1 1 ''p1'' ''done'' 100]. job_id j = 1"
    by (simp add: stored_job_def)
  have c: "\<forall>j \<in> set [stored_job 1 1 ''p1'' ''done'' 100]. job_id j = 1 \<longrightarrow> user_id j \<noteq> pk premium_user"
    by (simp add: stored_job_def premium_user_def)
  have d: "status_code (job_status free_user 1 [stored_job 1 1 ''p1'' ''done'' 100]) = 200"
    by (simp add: job_status_def stored_job_def free_user_def Let_def)
  from job_status_not_found_indistinguishable [OF a b c] d show ?thesis
    by simp
qed

section \<open>The extension check\<close>

lemma lower_length: "length (lower s) = length s"
  by (simp add: lower_def)

lemma lower_ext_fixed: "lower ''.csv'' = ''.csv''" "lower ''.xes'' = ''.xes''"
  by (simp_all add: lower_def to_lower_def is_ascii_upper_def)

lemma endswith_append: "length ext = length suf \<Longrightarrow> endswith (stem @ ext) suf \<longleftrightarrow> ext = suf"
  by (simp add: endswith_def)

text \<open>
  C9: The extension check of \<open>create_job\<close> is case-sensitive. When the name of the
  uploaded file ends in an upper- or mixed-case variant of \<open>.csv\<close> or \<open>.xes\<close> (the
  extension differs from its lower-case form), the response is status 400 with the
  message that only .xes and .csv files are supported, and the state is unchanged; the
  same request with the extension in lower case is not answered with that response.
\<close>

theorem create_job_extension_case_sensitive:
  assumes upl: "FILES rq ''file'' = Some f"
      and nm: "name f = stem @ ext"
      and variant: "lower ext = ''.csv'' \<or> lower ext = ''.xes''"
      and cased: "ext \<noteq> lower ext"
  shows "create_job b now d rq st =
           (JsonResponse [(''error'', JStr ''Only .xes and .csv files are supported'')] 400, st) \<and>
         fst (create_job b now d (rq\<lparr>FILES := (FILES rq)(''file'' \<mapsto> f\<lparr>name := stem @ lower ext\<rparr>)\<rparr>) st) \<noteq>
           JsonResponse [(''error'', JStr ''Only .xes and .csv files are supported'')] 400"
proof -
  from variant have len: "length ext = 4"
    using lower_length [of ext] by auto
  from variant cased have "ext \<noteq> ''.csv''" "ext \<noteq> ''.xes''"
    using lower_ext_fixed by auto
  with len have no: "\<not> endswith (stem @ ext) ''.xes''" "\<not> endswith (stem @ ext) ''.csv''"
    by (simp_all add: endswith_append)
  have first: "create_job b now d rq st =
           (JsonResponse [(''error'', JStr ''Only .xes and .csv files are supported'')] 400, st)"
    using upl nm no by (simp add: create_job_def Let_def)
  from variant have yes: "endswith (stem @ lower ext) ''.xes'' \<or> endswith (stem @ lower ext) ''.csv''"
    by (auto simp: endswith_def)
  have second: "fst (create_job b now d (rq\<lparr>FILES := (FILES rq)(''file'' \<mapsto> f\<lparr>name := stem @ lower ext\<rparr>)\<rparr>) st) \<noteq>
           JsonResponse [(''error'', JStr ''Only .xes and .csv files are supported'')] 400"
  proof -
    let ?rq = "rq\<lparr>FILES := (FILES rq)(''file'' \<mapsto> f\<lparr>name := stem @ lower ext\<rparr>)\<rparr>"
    have "FILES ?rq ''file'' = Some (f\<lparr>name := stem @ lower ext\<rparr>)" by simp
    moreover have "endswith (name (f\<lparr>name := stem @ lower ext\<rparr>)) ''.xes'' \<or>
                   endswith (name (f\<lparr>name := stem @ lower ext\<rparr>)) ''.csv''"
      using yes by simp
    ultimately show ?thesis
      using create_job_past_extension [of ?rq "f\<lparr>name := stem @ lower ext\<rparr>" b now d st]
        create_job_validated_status [of ?rq "f\<lparr>name := stem @ lower ext\<rparr>" _ _ b now d st]
      by (auto simp: valid_methods_repr_def)
  qed
  from first second show ?thesis by simp
qed

text \<open>The file \<open>LOG.CSV\<close> is refused with status 400 and nothing is created.\<close>

theorem create_job_extension_case_sensitive_witness:
  "fst (create_job sample_backend 0 ''2025/01/01/'' (form_request free_user (upload ''LOG.CSV'' (Some 5)) ''p4'' ''alpha'') empty_state) =
     JsonResponse [(''error'', JStr ''Only .xes and .csv files are supported'')] 400 \<and>
   snd (create_job sample_backend 0 ''2025/01/01/'' (form_request free_user (upload ''LOG.CSV'' (Some 5)) ''p4'' ''alpha'') empty_state) =
     empty_state"
proof -
  have a: "FILES (form_request free_user (upload ''LOG.CSV'' (Some 5)) ''p4'' ''alpha'') ''file'' =
             Some (upload ''LOG.CSV'' (Some 5))"
    by (simp add: form_request_def)
  have b: "name (upload ''LOG.CSV'' (Some 5)) = ''LOG'' @ ''.CSV''"
    by (simp add: upload_def)
  have c: "lower ''.CSV'' = ''.csv'' \<or> lower ''.CSV'' = ''.xes''"
    by code_simp
  have e: "''.CSV'' \<noteq> lower ''.CSV''"
    by code_simp
  from create_job_extension_case_sensitive [OF a b c e] show ?thesis
    by simp
qed

section \<open>The default mining method\<close>

text \<open>
  C10: When the form has no \<open>mining_method\<close> field, \<open>create_job\<close> behaves exactly as
  on the same request with \<open>mining_method = alpha\<close>, and is not answered with the
  invalid-method response. The status 400 response for an invalid mining method occurs
  only when the field is present with a value other than \<open>alpha\<close> and \<open>heuristics\<close>.
\<close>

theorem create_job_mining_method_default:
  "(POST rq ''mining_method'' = None \<longrightarrow>
      create_job b now d rq st =
        create_job b now d (rq\<lparr>POST := (POST rq)(''mining_method'' \<mapsto> ''alpha'')\<rparr>) st \<and>
      fst (create_job b now d rq st) \<noteq>
        JsonResponse [(''error'', JStr (''Invalid mining method. Choose from: '' @ valid_methods_repr))] 400) \<and>
   (fst (create_job b now d rq st) =
        JsonResponse [(''error'', JStr (''Invalid mining method. Choose from: '' @ valid_methods_repr))] 400 \<longrightarrow>
      (\<exists>v. POST rq ''mining_method'' = Some v \<and> v \<noteq> ''alpha'' \<and> v \<noteq> ''heuristics''))"
proof -
  have only: "fst (create_job b now d rq st) =
        JsonResponse [(''error'', JStr (''Invalid mining method. Choose from: '' @ valid_methods_repr))] 400 \<Longrightarrow>
      (\<exists>v. POST rq ''mining_method'' = Some v \<and> v \<noteq> ''alpha'' \<and> v \<noteq> ''heuristics'')"
  proof -
    assume inv: "fst (create_job b now d rq st) =
        JsonResponse [(''error'', JStr (''Invalid mining method. Choose from: '' @ valid_methods_repr))] 400"
    show "\<exists>v. POST rq ''mining_method'' = Some v \<and> v \<noteq> ''alpha'' \<and> v \<noteq> ''heuristics''"
    proof (cases "FILES rq ''file''")
      case None
      with inv show ?thesis by (simp add: create_job_no_file)
    next
      case (Some f)
      show ?thesis
      proof (cases "endswith (name f) ''.xes'' \<or> endswith (name f) ''.csv''")
        case False
        with Some inv show ?thesis by (simp add: create_job_bad_extension)
      next
        case ext: True
        show ?thesis
        proof (cases "strip (dict_get (POST rq) ''project_name'' []) = []")
          case True
          with Some ext inv show ?thesis by (simp add: create_job_no_project_name)
        next
          case pn: False
          show ?thesis
          proof (cases "dict_get (POST rq) ''mining_method'' ''alpha'' \<in> set valid_methods")
            case True
            with pn Some ext have "validated rq f (strip (dict_get (POST rq) ''project_name'' []))
                          (dict_get (POST rq) ''mining_method'' ''alpha'')"
              by (simp add: validated_def)
            from create_job_validated_status [OF this, of b now d st] inv show ?thesis
              by simp
          next
            case False
            then show ?thesis
              by (auto simp: dict_get_def valid_methods_def MINING_METHOD_CHOICES_def
                  split: option.splits)
          qed
        qed
      qed
    qed
  qed
  have same: "POST rq ''mining_method'' = None \<Longrightarrow>
      create_job b now d rq st =
        create_job b now d (rq\<lparr>POST := (POST rq)(''mining_method'' \<mapsto> ''alpha'')\<rparr>) st"
    by (simp add: create_job_def dict_get_def Let_def split: option.splits)
  from only same show ?thesis by auto
qed

text \<open>
  A premium user's request without the field creates a job whose mining method is
  \<open>alpha\<close>.
\<close>

theorem create_job_mining_method_default_witness:
  "POST (form_request_no_method premium_user (upload ''log.csv'' (Some 5)) ''p4'') ''mining_method'' = None \<and>
   create_job sample_backend 0 ''2025/01/01/'' (form_request_no_method premium_user (upload ''log.csv'' (Some 5)) ''p4'') empty_state =
   create_job sample_backend 0 ''2025/01/01/''
     ((form_request_no_method premium_user (upload ''log.csv'' (Some 5)) ''p4'')
        \<lparr>POST := (POST (form_request_no_method premium_user (upload ''log.csv'' (Some 5)) ''p4''))
                   (''mining_method'' \<mapsto> ''alpha'')\<rparr>) empty_state \<and>
   status_code (fst (create_job sample_backend 0 ''2025/01/01/''
      (form_request_no_method premium_user (upload ''log.csv'' (Some 5)) ''p4'') empty_state)) = 200 \<and>
   map mining_method (jobs (snd (create_job sample_backend 0 ''2025/01/01/''
      (form_request_no_method premium_user (upload ''log.csv'' (Some 5)) ''p4'') empty_state))) = [''alpha'']"
proof -
  let ?f = "upload ''log.csv'' (Some 5)"
  let ?rq = "form_request_no_method premium_user ?f ''p4''"
  have a: "POST ?rq ''mining_method'' = None"
    by (simp add: form_request_no_method_def)
  have v: "validated ?rq ?f ''p4'' ''alpha''"
    by (simp add: validated_def sample_defs string_defs dict_get_def valid_methods_def
        MINING_METHOD_CHOICES_def strip_p4)
  have p: "is_premium 0 premium_user"
    by (simp add: is_premium_def premium_user_def LICENSE_PREMIUM_def)
  have u: "user ?rq = premium_user"
    by (simp add: form_request_no_method_def)
  have cj: "create_job sample_backend 0 ''2025/01/01/'' ?rq empty_state =
              create_and_start sample_backend ''2025/01/01/'' premium_user ?f ''p4''
                (lower (dict_get (POST ?rq) ''cleaning_enabled'' ''false'') = ''true'') ''alpha'' empty_state"
    using p by (simp add: create_job_validated [OF v] u algorithm_denial_def project_limit_denial_def
        row_limit_denial_def can_use_algorithm_def get_allowed_algorithms_def ALGORITHM_CHOICES_def)
  have b: "status_code (fst (create_job sample_backend 0 ''2025/01/01/'' ?rq empty_state)) = 200"
    unfolding cj using sample_creation_succeeds by (simp add: create_and_start_succeeds)
  have c: "map mining_method (jobs (snd (create_job sample_backend 0 ''2025/01/01/'' ?rq empty_state))) = [''alpha'']"
    unfolding cj
    by (simp add: create_and_start_def objects_create_def new_job_def sample_backend_def
        sample_storage_save_def upload_def empty_state_def Let_def)
  from create_job_mining_method_default
         [where rq = ?rq and b = sample_backend and now = 0 and d = "''2025/01/01/''" and st = empty_state]
       a b c
  show ?thesis by simp
qed

section \<open>The quota checks\<close>

text \<open>
  C1: For a request that passed validation, the three quota checks apply in the order
  algorithm access, project limit, row limit: the response is the denial of the first
  check that denies, whatever the later checks would say. Every denial has status 403
  and leaves the state as it was: no job row, no stored file, no thread. Only when all
  three checks pass does \<open>create_job\<close> go on to create the job, which is answered
  with 200 or 500; so a job table or a storage that differs from before means that all
  three checks passed. For any request at all, a status 403 response leaves the state
  unchanged and comes from one of the three checks.
\<close>

theorem create_job_quota_checks_atomic:
  assumes v: "validated rq f pn m"
  shows "(\<forall>r. algorithm_denial now (user rq) m = Some r \<longrightarrow>
            create_job b now d rq st = (r, st) \<and> status_code r = 403) \<and>
         (\<forall>r. algorithm_denial now (user rq) m = None \<and>
              project_limit_denial now (user rq) (jobs st) = Some r \<longrightarrow>
            create_job b now d rq st = (r, st) \<and> status_code r = 403) \<and>
         (\<forall>r. algorithm_denial now (user rq) m = None \<and>
              project_limit_denial now (user rq) (jobs st) = None \<and>
              row_limit_denial now (user rq) f = Some r \<longrightarrow>
            create_job b now d rq st = (r, st) \<and> status_code r = 403) \<and>
         (algorithm_denial now (user rq) m = None \<and>
          project_limit_denial now (user rq) (jobs st) = None \<and>
          row_limit_denial now (user rq) f = None \<longrightarrow>
            create_job b now d rq st =
              create_and_start b d (user rq) f pn
                (lower (dict_get (POST rq) ''cleaning_enabled'' ''false'') = ''true'') m st \<and>
            (status_code (fst (create_job b now d rq st)) = 200 \<or>
             status_code (fst (create_job b now d rq st)) = 500) \<and>
            (status_code (fst (create_job b now d rq st)) = 200 \<longrightarrow>
               length (jobs (snd (create_job b now d rq st))) = Suc (length (jobs st)) \<and>
               length (storage (snd (create_job b now d rq st))) = Suc (length (storage st)))) \<and>
         (jobs (snd (create_job b now d rq st)) \<noteq> jobs st \<or>
          storage (snd (create_job b now d rq st)) \<noteq> storage st \<longrightarrow>
            algorithm_denial now (user rq) m = None \<and>
            project_limit_denial now (user rq) (jobs st) = None \<and>
            row_limit_denial now (user rq) f = None) \<and>
         (status_code (fst (create_job b now d rq' st)) = 403 \<longrightarrow>
            snd (create_job b now d rq' st) = st \<and>
            (\<exists>f' pn' m'. validated rq' f' pn' m' \<and>
               (algorithm_denial now (user rq') m' \<noteq> None \<or>
                project_limit_denial now (user rq') (jobs st) \<noteq> None \<or>
                row_limit_denial now (user rq') f' \<noteq> None)))"
proof -
  let ?ce = "lower (dict_get (POST rq) ''cleaning_enabled'' ''false'') = ''true''"
  have first: "create_job b now d rq st = (r, st) \<and> status_code r = 403"
    if "algorithm_denial now (user rq) m = Some r" for r
    using that by (auto simp: create_job_validated [OF v] dest: algorithm_denial_status)
  have second: "create_job b now d rq st = (r, st) \<and> status_code r = 403"
    if "algorithm_denial now (user rq) m = None \<and>
        project_limit_denial now (user rq) (jobs st) = Some r" for r
    using that by (auto simp: create_job_validated [OF v] dest: project_limit_denial_status)
  have third: "create_job b now d rq st = (r, st) \<and> status_code r = 403"
    if "algorithm_denial now (user rq) m = None \<and>
        project_limit_denial now (user rq) (jobs st) = None \<and>
        row_limit_denial now (user rq) f = Some r" for r
    using that by (auto simp: create_job_validated [OF v] dest: row_limit_denial_status)
  have pass: "create_job b now d rq st = create_and_start b d (user rq) f pn ?ce m st \<and>
            (status_code (fst (create_job b now d rq st)) = 200 \<or>
             status_code (fst (create_job b now d rq st)) = 500) \<and>
            (status_code (fst (create_job b now d rq st)) = 200 \<longrightarrow>
               length (jobs (snd (create_job b now d rq st))) = Suc (length (jobs st)) \<and>
               length (storage (snd (create_job b now d rq st))) = Suc (length (storage st)))"
    if "algorithm_denial now (user rq) m = None \<and>
        project_limit_denial now (user rq) (jobs st) = None \<and>
        row_limit_denial now (user rq) f = None"
  proof -
    from that have eq: "create_job b now d rq st = create_and_start b d (user rq) f pn ?ce m st"
      by (simp add: create_job_validated [OF v])
    show ?thesis
      unfolding eq
      using create_and_start_status [of b d "user rq" f pn ?ce m st]
        create_and_start_200 [of b d "user rq" f pn ?ce m st]
        create_and_start_succeeds [of b d "user rq" f pn ?ce m st]
      by blast
  qed
  have written: "algorithm_denial now (user rq) m = None \<and>
            project_limit_denial now (user rq) (jobs st) = None \<and>
            row_limit_denial now (user rq) f = None"
    if "jobs (snd (create_job b now d rq st)) \<noteq> jobs st \<or>
        storage (snd (create_job b now d rq st)) \<noteq> storage st"
    using that by (auto simp: create_job_validated [OF v] split: option.splits)
  have any: "snd (create_job b now d rq' st) = st \<and>
            (\<exists>f' pn' m'. validated rq' f' pn' m' \<and>
               (algorithm_denial now (user rq') m' \<noteq> None \<or>
                project_limit_denial now (user rq') (jobs st) \<noteq> None \<or>
                row_limit_denial now (user rq') f' \<noteq> None))"
    if "status_code (fst (create_job b now d rq' st)) = 403"
    using that by (rule create_job_403_cases)
  from first second third pass written any show ?thesis
    by blast
qed

text \<open>
  The free sample user asks for \<open>heuristics\<close> with a 1001-row CSV while holding three
  projects: all three checks would deny, the response is the algorithm denial, and the
  state is unchanged.
\<close>

theorem create_job_quota_checks_atomic_witness:
  "validated (form_request free_user (upload ''log.csv'' (Some 1001)) ''p4'' ''heuristics'')
     (upload ''log.csv'' (Some 1001)) ''p4'' ''heuristics'' \<and>
   project_limit_denial 0 free_user (jobs three_projects) \<noteq> None \<and>
   row_limit_denial 0 free_user (upload ''log.csv'' (Some 1001)) \<noteq> None \<and>
   (\<exists>r. algorithm_denial 0 free_user ''heuristics'' = Some r \<and> status_code r = 403 \<and>
        create_job sample_backend 0 ''2025/01/01/''
          (form_request free_user (upload ''log.csv'' (Some 1001)) ''p4'' ''heuristics'')
          three_projects = (r, three_projects))"
proof -
  have m: "''heuristics'' \<in> set valid_methods"
    by (simp add: valid_methods_def MINING_METHOD_CHOICES_def)
  have v: "validated (form_request free_user (upload ''log.csv'' (Some 1001)) ''p4'' ''heuristics'')
     (upload ''log.csv'' (Some 1001)) ''p4'' ''heuristics''"
    using m by (rule validated_form_request)
  note p = free_user_not_premium
  have u: "user (form_request free_user (upload ''log.csv'' (Some 1001)) ''p4'' ''heuristics'') = free_user"
    by (simp add: form_request_def)
  have pl: "project_limit_denial 0 free_user (jobs three_projects) \<noteq> None"
    using p by (simp add: project_limit_denial_def project_count_def three_projects_def
        stored_job_def free_user_def Let_def)
  have rl: "row_limit_denial 0 free_user (upload ''log.csv'' (Some 1001)) \<noteq> None"
    using p by (simp add: row_limit_denial_def read_csv_nrows_def upload_def endswith_def
        free_user_def Let_def)
  have "\<not> can_use_algorithm 0 free_user ''heuristics''"
    using p by (simp add: can_use_algorithm_def get_allowed_algorithms_def free_user_def)
  then obtain r where r: "algorithm_denial 0 free_user ''heuristics'' = Some r"
    by (simp add: algorithm_denial_def Let_def)
  from create_job_quota_checks_atomic [OF v, where now = 0 and b = sample_backend
      and d = "''2025/01/01/''" and st = three_projects] r u
  have "create_job sample_backend 0 ''2025/01/01/''
          (form_request free_user (upload ''log.csv'' (Some 1001)) ''p4'' ''heuristics'')
          three_projects = (r, three_projects) \<and> status_code r = 403"
    by simp
  with v pl rl r show ?thesis by blast
qed

text \<open>The two later denials, written out.\<close>

lemma project_limit_denial_iff:
  "project_limit_denial now u js =
     (if \<not> is_premium now u \<and> max_projects u > 0 \<and> int (project_count js (pk u)) \<ge> max_projects u
      then Some (JsonResponse
             [(''error'', JStr (warning_sign @ '' Project limit reached ('' @ str_int (max_projects u)
                                @ '' projects).'')),
              (''message'', JStr ''Please upgrade to Premium for unlimited projects or delete an existing project.''),
              upgrade_url] 403)
      else None)"
  by (simp add: project_limit_denial_def Let_def)

lemma row_limit_denial_iff:
  "row_limit_denial now u f =
     (if endswith (name f) ''.csv'' \<and> \<not> is_premium now u \<and> max_log_rows u > 0 \<and>
         (\<exists>k. read_csv_nrows f (nat (max_log_rows u + 1)) = Some k \<and> int k > max_log_rows u)
      then Some (JsonResponse
             [(''error'', JStr (warning_sign @ '' Log size limit exceeded (''
                                @ format_comma (the (read_csv_nrows f (nat (max_log_rows u + 1)))) @ '' rows).'')),
              (''message'', JStr (''Your plan allows up to '' @ format_comma (nat (max_log_rows u))
                                @ '' rows. Please upgrade to Premium for unlimited log size.'')),
              upgrade_url] 403)
      else None)"
  by (auto simp: row_limit_denial_def Let_def split: option.splits)

text \<open>What the project query counts: the distinct non-empty project names of the user's jobs.\<close>

lemma project_count_card:
  "project_count js uid =
     card {project_name j | j. j \<in> set js \<and> user_id j = uid \<and> project_name j \<noteq> []}"
proof -
  have "set (filter (\<lambda>p. p \<noteq> []) (map project_name (filter (\<lambda>j. user_id j = uid) js))) =
          {project_name j | j. j \<in> set js \<and> user_id j = uid \<and> project_name j \<noteq> []}"
    by auto
  then show ?thesis
    by (simp add: project_count_def length_remdups_card_conv)
qed

text \<open>
  C7: For a non-premium user whose validated request passed the algorithm check,
  \<open>create_job\<close> answers with the project-limit denial (status 403, state unchanged, so no
  job row is created) exactly when \<open>max_projects > 0\<close> and the number of distinct
  non-empty project names among the user's own jobs is at least \<open>max_projects\<close>; that
  number is what \<open>project_count\<close> computes. Premium users, and users with
  \<open>max_projects = 0\<close>, are never denied by the project limit.
\<close>

theorem project_limit_check:
  assumes v: "validated rq f pn m"
      and alg: "algorithm_denial now (user rq) m = None"
      and free: "\<not> is_premium now (user rq)"
  shows "(create_job b now d rq st =
            (JsonResponse
               [(''error'', JStr (warning_sign @ '' Project limit reached (''
                                  @ str_int (max_projects (user rq)) @ '' projects).'')),
                (''message'', JStr ''Please upgrade to Premium for unlimited projects or delete an existing project.''),
                upgrade_url] 403, st)
          \<longleftrightarrow> max_projects (user rq) > 0 \<and>
              int (card {project_name j | j. j \<in> set (jobs st) \<and> user_id j = pk (user rq) \<and>
                                             project_name j \<noteq> []})
                \<ge> max_projects (user rq)) \<and>
         project_count js uid =
           card {project_name j | j. j \<in> set js \<and> user_id j = uid \<and> project_name j \<noteq> []} \<and>
         (is_premium now u' \<or> max_projects u' = 0 \<longrightarrow> project_limit_denial now u' js = None)"
proof -
  let ?resp = "JsonResponse
               [(''error'', JStr (warning_sign @ '' Project limit reached (''
                                  @ str_int (max_projects (user rq)) @ '' projects).'')),
                (''message'', JStr ''Please upgrade to Premium for unlimited projects or delete an existing project.''),
                upgrade_url] 403"
  let ?cond = "max_projects (user rq) > 0 \<and>
               int (project_count (jobs st) (pk (user rq))) \<ge> max_projects (user rq)"
  let ?ce = "lower (dict_get (POST rq) ''cleaning_enabled'' ''false'') = ''true''"
  have denied: "create_job b now d rq st = (?resp, st)" if ?cond
    using that free alg by (simp add: create_job_validated [OF v] project_limit_denial_iff)
  have only: ?cond if eq: "create_job b now d rq st = (?resp, st)"
  proof (rule ccontr)
    assume "\<not> ?cond"
    then have none: "project_limit_denial now (user rq) (jobs st) = None"
      by (auto simp: project_limit_denial_iff)
    show False
    proof (cases "row_limit_denial now (user rq) f")
      case None
      with none alg eq have "create_and_start b d (user rq) f pn ?ce m st = (?resp, st)"
        by (simp add: create_job_validated [OF v])
      with create_and_start_status [of b d "user rq" f pn ?ce m st] show False
        by simp
    next
      case (Some r)
      with none alg eq have "r = ?resp"
        by (simp add: create_job_validated [OF v])
      with Some show False
        by (simp add: row_limit_denial_iff split: if_splits)
    qed
  qed
  have never: "project_limit_denial now u' js = None" if "is_premium now u' \<or> max_projects u' = 0"
    using that by (auto simp: project_limit_denial_iff)
  from denied only never show ?thesis
    unfolding project_count_card by blast
qed

text \<open>
  The free sample user has three distinct projects and a limit of three; the table also
  holds a job of that user without a project name and a job of another user in a fourth
  project, which do not count. A request for a new project is denied and the table is
  unchanged.
\<close>

theorem project_limit_check_witness:
  "\<not> is_premium 0 free_user \<and> max_projects free_user = 3 \<and>
   length (jobs three_projects) = 6 \<and>
   project_count (jobs three_projects) (pk free_user) = 3 \<and>
   create_job sample_backend 0 ''2025/01/01/''
     (form_request free_user (upload ''log.csv'' (Some 5)) ''p4'' ''alpha'') three_projects =
     (JsonResponse
        [(''error'', JStr (warning_sign @ '' Project limit reached (3 projects).'')),
         (''message'', JStr ''Please upgrade to Premium for unlimited projects or delete an existing project.''),
         upgrade_url] 403, three_projects)"
proof -
  let ?rq = "form_request free_user (upload ''log.csv'' (Some 5)) ''p4'' ''alpha''"
  have m: "''alpha'' \<in> set valid_methods"
    by (simp add: valid_methods_def MINING_METHOD_CHOICES_def)
  have v: "validated ?rq (upload ''log.csv'' (Some 5)) ''p4'' ''alpha''"
    using m by (rule validated_form_request)
  have u: "user ?rq = free_user"
    by (simp add: form_request_def)
  note p = free_user_not_premium
  have alg: "algorithm_denial 0 (user ?rq) ''alpha'' = None"
    using p unfolding u
    by (simp add: algorithm_denial_def can_use_algorithm_def get_allowed_algorithms_def free_user_def)
  have free: "\<not> is_premium 0 (user ?rq)"
    using p unfolding u .
  have mx: "max_projects free_user = 3"
    by (simp add: free_user_def)
  have len: "length (jobs three_projects) = 6"
    by (simp add: three_projects_def)
  have cnt: "project_count (jobs three_projects) (pk free_user) = 3"
    by (simp add: project_count_def three_projects_def stored_job_def free_user_def)
  have s: "str_int 3 = ''3''"
    by code_simp
  note inst = project_limit_check [OF v alg free, where b = sample_backend and d = "''2025/01/01/''"
      and st = three_projects and js = "jobs three_projects" and uid = "pk free_user", unfolded u]
  from inst have card: "card {project_name j | j. j \<in> set (jobs three_projects) \<and>
      user_id j = pk free_user \<and> project_name j \<noteq> []} = 3"
    using cnt by simp
  from inst mx card s have "create_job sample_backend 0 ''2025/01/01/'' ?rq three_projects =
     (JsonResponse
        [(''error'', JStr (warning_sign @ '' Project limit reached (3 projects).'')),
         (''message'', JStr ''Please upgrade to Premium for unlimited projects or delete an existing project.''),
         upgrade_url] 403, three_projects)"
    by simp
  with p mx len cnt show ?thesis by simp
qed

section \<open>The row limit\<close>

text \<open>
  C5, as the code has it: For a validated CSV upload that passed the algorithm and
  project checks: a non-premium user's request is answered with status 403 exactly when
  \<open>max_log_rows > 0\<close> and the pre-scan, which reads at most \<open>max_log_rows + 1\<close> rows,
  counts more than \<open>max_log_rows\<close> rows; the error message then carries the observed
  row count and the state is unchanged. A file with exactly \<open>max_log_rows\<close> rows is not
  denied by the row limit: \<open>create_job\<close> goes on to create the job, which is answered
  with 200 and a new row when storing the file, inserting the row and starting the
  thread go through, and with 500 when one of them raises. The same holds when the
  pre-scan raises, and for premium users, who are never row-limited.
\<close>

theorem row_limit_check:
  assumes v: "validated rq f pn m"
      and csv: "endswith (name f) ''.csv''"
      and alg: "algorithm_denial now (user rq) m = None"
      and proj: "project_limit_denial now (user rq) (jobs st) = None"
  shows "(\<not> is_premium now (user rq) \<longrightarrow>
            (status_code (fst (create_job b now d rq st)) = 403 \<longleftrightarrow>
               max_log_rows (user rq) > 0 \<and>
               (\<exists>k. read_csv_nrows f (nat (max_log_rows (user rq) + 1)) = Some k \<and>
                    int k > max_log_rows (user rq)))) \<and>
         (\<not> is_premium now (user rq) \<and> max_log_rows (user rq) > 0 \<and>
          read_csv_nrows f (nat (max_log_rows (user rq) + 1)) = Some k \<and> int k > max_log_rows (user rq) \<longrightarrow>
            snd (create_job b now d rq st) = st \<and>
            map_of (body (fst (create_job b now d rq st))) ''error'' =
              Some (JStr (warning_sign @ '' Log size limit exceeded ('' @ format_comma k @ '' rows).''))) \<and>
         (csv_rows f = Some (nat (max_log_rows (user rq))) \<or> csv_rows f = None \<or>
          is_premium now (user rq) \<longrightarrow>
            row_limit_denial now (user rq) f = None \<and>
            status_code (fst (create_job b now d rq st)) \<noteq> 403 \<and>
            create_job b now d rq st =
              create_and_start b d (user rq) f pn
                (lower (dict_get (POST rq) ''cleaning_enabled'' ''false'') = ''true'') m st \<and>
            (creation_succeeds b d (user rq) f pn
               (lower (dict_get (POST rq) ''cleaning_enabled'' ''false'') = ''true'') m st \<longrightarrow>
               status_code (fst (create_job b now d rq st)) = 200 \<and>
               length (jobs (snd (create_job b now d rq st))) = Suc (length (jobs st))) \<and>
            (\<not> creation_succeeds b d (user rq) f pn
               (lower (dict_get (POST rq) ''cleaning_enabled'' ''false'') = ''true'') m st \<longrightarrow>
               status_code (fst (create_job b now d rq st)) = 500))"
proof -
  let ?u = "user rq"
  let ?ce = "lower (dict_get (POST rq) ''cleaning_enabled'' ''false'') = ''true''"
  let ?cond = "max_log_rows ?u > 0 \<and>
               (\<exists>k. read_csv_nrows f (nat (max_log_rows ?u + 1)) = Some k \<and> int k > max_log_rows ?u)"
  have passes: "status_code (fst (create_job b now d rq st)) \<noteq> 403 \<and>
                create_job b now d rq st = create_and_start b d ?u f pn ?ce m st \<and>
                (creation_succeeds b d ?u f pn ?ce m st \<longrightarrow>
                   status_code (fst (create_job b now d rq st)) = 200 \<and>
                   length (jobs (snd (create_job b now d rq st))) = Suc (length (jobs st))) \<and>
                (\<not> creation_succeeds b d ?u f pn ?ce m st \<longrightarrow>
                   status_code (fst (create_job b now d rq st)) = 500)"
    if "row_limit_denial now ?u f = None"
  proof -
    from that alg proj have eq: "create_job b now d rq st = create_and_start b d ?u f pn ?ce m st"
      by (simp add: create_job_validated [OF v])
    show ?thesis
      unfolding eq
      using create_and_start_status [of b d ?u f pn ?ce m st]
        create_and_start_succeeds [of b d ?u f pn ?ce m st]
        create_and_start_fails [of b d ?u f pn ?ce m st]
      by auto
  qed
  have a: "status_code (fst (create_job b now d rq st)) = 403 \<longleftrightarrow> ?cond" if "\<not> is_premium now ?u"
  proof (cases ?cond)
    case True
    with that csv alg proj show ?thesis
      by (simp add: create_job_validated [OF v] row_limit_denial_iff)
  next
    case False
    with that have "row_limit_denial now ?u f = None"
      by (auto simp: row_limit_denial_iff)
    from passes [OF this] have "status_code (fst (create_job b now d rq st)) \<noteq> 403"
      by blast
    with False show ?thesis by blast
  qed
  have b: "snd (create_job b now d rq st) = st \<and>
           map_of (body (fst (create_job b now d rq st))) ''error'' =
              Some (JStr (warning_sign @ '' Log size limit exceeded ('' @ format_comma k @ '' rows).''))"
    if "\<not> is_premium now ?u \<and> max_log_rows ?u > 0 \<and>
        read_csv_nrows f (nat (max_log_rows ?u + 1)) = Some k \<and> int k > max_log_rows ?u"
    using that csv alg proj
    by (simp add: create_job_validated [OF v] row_limit_denial_iff)
  have c: "row_limit_denial now ?u f = None"
    if "csv_rows f = Some (nat (max_log_rows ?u)) \<or> csv_rows f = None \<or> is_premium now ?u"
    using that by (auto simp: row_limit_denial_iff read_csv_nrows_def)
  from a b c passes show ?thesis
    by blast
qed

text \<open>
  With the limit at 1000 rows, 1001 rows are refused with the count \<open>1,001\<close> in the
  message, and exactly 1000 rows in a file with a short name are accepted.
\<close>

theorem row_limit_check_witness:
  "\<not> is_premium 0 free_user \<and> max_log_rows free_user = 1000 \<and>
   status_code (fst (create_job sample_backend 0 ''2025/01/01/''
      (form_request free_user (upload ''log.csv'' (Some 1001)) ''p4'' ''alpha'') empty_state)) = 403 \<and>
   map_of (body (fst (create_job sample_backend 0 ''2025/01/01/''
      (form_request free_user (upload ''log.csv'' (Some 1001)) ''p4'' ''alpha'') empty_state))) ''error'' =
     Some (JStr (warning_sign @ '' Log size limit exceeded (1,001 rows).'')) \<and>
   snd (create_job sample_backend 0 ''2025/01/01/''
      (form_request free_user (upload ''log.csv'' (Some 1001)) ''p4'' ''alpha'') empty_state) = empty_state \<and>
   status_code (fst (create_job sample_backend 0 ''2025/01/01/''
      (form_request free_user (upload ''log.csv'' (Some 1000)) ''p4'' ''alpha'') empty_state)) = 200"
proof -
  let ?f = "upload ''log.csv'' (Some 1001)"
  let ?rq = "form_request free_user ?f ''p4'' ''alpha''"
  have m: "''alpha'' \<in> set valid_methods"
    by (simp add: valid_methods_def MINING_METHOD_CHOICES_def)
  have v: "validated ?rq ?f ''p4'' ''alpha''"
    using m by (rule validated_form_request)
  have u: "user ?rq = free_user"
    by (simp add: form_request_def)
  note p = free_user_not_premium
  have csv: "endswith (name ?f) ''.csv''"
    by (simp add: upload_def endswith_def)
  have alg: "algorithm_denial 0 (user ?rq) ''alpha'' = None"
    using p unfolding u
    by (simp add: algorithm_denial_def can_use_algorithm_def get_allowed_algorithms_def free_user_def)
  have proj: "project_limit_denial 0 (user ?rq) (jobs empty_state) = None"
    using p unfolding u
    by (simp add: project_limit_denial_def project_count_def empty_state_def free_user_def Let_def)
  have mx: "max_log_rows free_user = 1000"
    by (simp add: free_user_def)
  have scan: "read_csv_nrows ?f (nat (max_log_rows free_user + 1)) = Some 1001"
    by (simp add: read_csv_nrows_def upload_def free_user_def)
  have fc: "format_comma 1001 = ''1,001''"
    by code_simp
  let ?g = "upload ''log.csv'' (Some 1000)"
  let ?rq' = "form_request free_user ?g ''p4'' ''alpha''"
  have v': "validated ?rq' ?g ''p4'' ''alpha''"
    using m by (rule validated_form_request)
  have u': "user ?rq' = free_user"
    by (simp add: form_request_def)
  have csv': "endswith (name ?g) ''.csv''"
    by (simp add: upload_def endswith_def)
  have exact: "csv_rows ?g = Some (nat (max_log_rows free_user))"
    by (simp add: upload_def free_user_def)
  have alg': "algorithm_denial 0 (user ?rq') ''alpha'' = None"
    using alg unfolding u u' .
  have proj': "project_limit_denial 0 (user ?rq') (jobs empty_state) = None"
    using proj unfolding u u' .
  from row_limit_check [OF v' csv' alg' proj', where b = sample_backend and d = "''2025/01/01/''",
      unfolded u'] exact sample_creation_succeeds
  have ok: "status_code (fst (create_job sample_backend 0 ''2025/01/01/'' ?rq' empty_state)) = 200"
    by blast
  from row_limit_check [OF v csv alg proj, where b = sample_backend and d = "''2025/01/01/''"
      and k = 1001, unfolded u] p mx scan fc ok
  show ?thesis by simp
qed

text \<open>
  C5, as the claim has it, fails where it says that an upload of exactly \<open>max_log_rows\<close>
  rows succeeds. The free sample user, limited to 1000 rows, uploads a CSV file of
  exactly 1000 rows whose name has 85 characters and a one-letter root: the request
  passes validation and all three checks, the storage finds no name of at most 100
  characters for it, and \<open>create_job\<close> answers with status 500 and creates no job.
\<close>

theorem row_limit_check_counterexample:
  "csv_rows (upload dotted_name (Some 1000)) = Some (nat (max_log_rows free_user)) \<and>
   validated (form_request free_user (upload dotted_name (Some 1000)) ''p4'' ''alpha'')
     (upload dotted_name (Some 1000)) ''p4'' ''alpha'' \<and>
   algorithm_denial 0 free_user ''alpha'' = None \<and>
   project_limit_denial 0 free_user (jobs empty_state) = None \<and>
   row_limit_denial 0 free_user (upload dotted_name (Some 1000)) = None \<and>
   status_code (fst (create_job sample_backend 0 ''2025/01/01/''
      (form_request free_user (upload dotted_name (Some 1000)) ''p4'' ''alpha'') empty_state)) = 500 \<and>
   jobs (snd (create_job sample_backend 0 ''2025/01/01/''
      (form_request free_user (upload dotted_name (Some 1000)) ''p4'' ''alpha'') empty_state)) = []"
proof -
  let ?f = "upload dotted_name (Some 1000)"
  let ?rq = "form_request free_user ?f ''p4'' ''alpha''"
  note p = free_user_not_premium
  have exact: "csv_rows ?f = Some (nat (max_log_rows free_user))"
    by (simp add: upload_def free_user_def)
  have csv: "endswith (name ?f) ''.csv''"
    by (simp add: upload_def endswith_def dotted_name_def)
  have v: "validated ?rq ?f ''p4'' ''alpha''"
    using csv
    by (simp add: validated_def form_request_def dict_get_def strip_p4 valid_methods_def
        MINING_METHOD_CHOICES_def)
  have u: "user ?rq = free_user"
    by (simp add: form_request_def)
  have alg: "algorithm_denial 0 free_user ''alpha'' = None"
    using p by (simp add: algorithm_denial_def can_use_algorithm_def get_allowed_algorithms_def
        free_user_def)
  have proj: "project_limit_denial 0 free_user (jobs empty_state) = None"
    using p by (simp add: project_limit_denial_def project_count_def empty_state_def free_user_def Let_def)
  have row: "row_limit_denial 0 free_user ?f = None"
    using p by (simp add: row_limit_denial_def read_csv_nrows_def upload_def free_user_def Let_def)
  have st: "storage_save sample_backend (''uploads/event_logs/'' @ ''2025/01/01/'' @ name ?f) ?f =
              Inl (Exn ''SuspiciousFileOperation'' ''Storage can not find an available filename'')"
    by (simp add: sample_backend_def sample_storage_save_def upload_def dotted_name_def Let_def)
  have cj: "create_job sample_backend 0 ''2025/01/01/'' ?rq empty_state =
              (server_error (Exn ''SuspiciousFileOperation'' ''Storage can not find an available filename''),
               empty_state)"
    using alg proj row st
    by (simp add: create_job_validated [OF v] u create_and_start_def objects_create_def)
  have "status_code (fst (create_job sample_backend 0 ''2025/01/01/'' ?rq empty_state)) = 500"
    and "jobs (snd (create_job sample_backend 0 ''2025/01/01/'' ?rq empty_state)) = []"
    unfolding cj by (simp_all add: server_error_def empty_state_def)
  with exact v alg proj row show ?thesis
    by blast
qed

section \<open>Facts about the runner\<close>

lemma path_join_nonempty: "b \<noteq> [] \<Longrightarrow> path_join a b \<noteq> []"
  by (simp add: path_join_def)

text \<open>A path returned by \<open>run_process_mining\<close> is not empty and exists.\<close>

lemma run_process_mining_path:
  assumes "run_process_mining c df m jid = Inr p"
  shows "p \<noteq> [] \<and> exists_after_mining c p"
  using assms
  by (auto simp: run_process_mining_def Let_def path_join_nonempty
      split: option.splits if_splits sum.splits)

lemma same_request_refl: "same_request a a"
  by (simp add: same_request_def)

lemma same_request_trans: "same_request a b \<Longrightarrow> same_request b c \<Longrightarrow> same_request a c"
  by (simp add: same_request_def)

text \<open>What each block does to the job object and which rows it saves.\<close>

lemma load_stage_facts:
  assumes "load_stage c job0 = (j, ss, out, r)"
  shows "same_request job0 j \<and> status j = ''running'' \<and> output_map_svg j = output_map_svg job0 \<and>
         ss \<noteq> [] \<and> last ss = j \<and>
         (\<forall>x \<in> set ss. same_request job0 x \<and> output_map_svg x = output_map_svg job0) \<and>
         r = snd (load_event_log c (original_file job0)) \<and>
         map checkpoint ss =
           (case r of Inl e \<Rightarrow> [(''running'', 10)] | Inr df \<Rightarrow> [(''running'', 10), (''running'', 30)])"
  using assms
  by (auto simp: load_stage_def Let_def same_request_def checkpoint_def split: prod.splits sum.splits)

lemma clean_stage_facts:
  assumes "clean_stage c job2 df = (j, ss, r)"
  shows "same_request job2 j \<and> status j = status job2 \<and> output_map_svg j = output_map_svg job2 \<and>
         (ss = [] \<and> j = job2 \<or> ss \<noteq> [] \<and> last ss = j) \<and>
         (\<forall>x \<in> set ss. same_request job2 x \<and> output_map_svg x = output_map_svg job2) \<and>
         r = (if cleaning_enabled job2 then run_smart_clean c df else Inr df) \<and>
         map checkpoint ss =
           (if cleaning_enabled job2
            then (case r of Inl e \<Rightarrow> [(status job2, 40)] | Inr df' \<Rightarrow> [(status job2, 40), (status job2, 60)])
            else [])"
  using assms
  by (auto simp: clean_stage_def Let_def same_request_def checkpoint_def split: sum.splits if_splits)

lemma mining_stage_facts:
  assumes "mining_stage c job4 df jid = (j, ss, r)"
  shows "same_request job4 j \<and> status j = status job4 \<and> output_map_svg j = output_map_svg job4 \<and>
         ss = [j] \<and> progress j = 70 \<and>
         r = run_process_mining c df (mining_method job4) jid"
  using assms
  by (auto simp: mining_stage_def Let_def same_request_def)

lemma visualize_stage_facts:
  assumes "visualize_stage c job6 p jid = (j, out)"
  shows "same_request job6 j \<and> status j = status job6 \<and> progress j = progress job6 \<and>
         message j = message job6 \<and>
         (\<forall>e. render_svg c p (path_join (tempdir c) (''job_'' @ str_nat jid @ ''.svg'')) = Some e \<longrightarrow>
            j = job6 \<and> ''   Error: Failed to convert PNML to SVG: '' @ exc_msg e \<in> set out)"
  using assms
  by (auto simp: visualize_stage_def convert_pnml_to_image_def Let_def same_request_def
      split: sum.splits if_splits option.splits)

lemma output_stage_facts:
  assumes "output_stage c job5 p jid = (j, ss, out, r)"
      and "p \<noteq> [] \<and> exists_after_mining c p"
  shows "same_request job5 j \<and> status j = status job5 \<and> r = open_rb c p \<and>
         (\<forall>x \<in> set ss. same_request job5 x \<and> output_map_svg x = output_map_svg job5) \<and>
         map checkpoint ss = (case r of Some e \<Rightarrow> [] | None \<Rightarrow> [(status job5, 90)]) \<and>
         (r \<noteq> None \<longrightarrow> j = job5) \<and>
         (\<forall>e. r = None \<and>
              render_svg c p (path_join (tempdir c) (''job_'' @ str_nat jid @ ''.svg'')) = Some e \<longrightarrow>
            output_map_svg j = output_map_svg job5 \<and>
            ''   Error: Failed to convert PNML to SVG: '' @ exc_msg e \<in> set out)"
proof (cases "open_rb c p")
  case None
  obtain j7 out7 where vs: "visualize_stage c (job5\<lparr>progress := 90, message := ''Generating visualization...''\<rparr>) p jid = (j7, out7)"
    by (cases "visualize_stage c (job5\<lparr>progress := 90, message := ''Generating visualization...''\<rparr>) p jid")
  from assms None vs have eq: "j = j7" "out = out7" "r = None"
    "ss = [job5\<lparr>progress := 90, message := ''Generating visualization...''\<rparr>]"
    by (simp_all add: output_stage_def Let_def)
  from visualize_stage_facts [OF vs] eq None show ?thesis
    by (auto simp: same_request_def checkpoint_def)
next
  case (Some e)
  with assms have "j = job5" "ss = []" "out = []" "r = Some e"
    by (simp_all add: output_stage_def)
  with Some show ?thesis
    by (simp add: same_request_def)
qed

text \<open>
  The \<^verbatim>\<open>try\<close> body as a whole: the rows it saves belong to the same request, their
  checkpoints are the full list followed by \<open>done\<close>, or a non-empty part of it from
  the start when an exception ends the body; the exception is that of the first stage
  that raises, or that of opening the PNML file.
\<close>

lemma try_body_facts:
  assumes tb: "try_body c job0 jid = (j, ss, out, r)"
  shows "same_request job0 j \<and> ss \<noteq> [] \<and> last ss = j \<and>
         (\<forall>x \<in> set ss. same_request job0 x) \<and>
         (case r of
            None \<Rightarrow> map checkpoint ss = running_checkpoints (cleaning_enabled job0) @ [(''done'', 100)]
          | Some e \<Rightarrow> status j = ''running'' \<and>
              (\<exists>rest. running_checkpoints (cleaning_enabled job0) = map checkpoint ss @ rest)) \<and>
         (case stages_result c job0 jid of
            Inl e \<Rightarrow> r = Some e
          | Inr p \<Rightarrow> r = open_rb c p \<and>
              (\<forall>e. r = None \<and>
                   render_svg c p (path_join (tempdir c) (''job_'' @ str_nat jid @ ''.svg'')) = Some e \<longrightarrow>
                 output_map_svg j = output_map_svg job0 \<and>
                 ''   Error: Failed to convert PNML to SVG: '' @ exc_msg e \<in> set out))"
proof -
  obtain j2 s1 o1 r1 where ls: "load_stage c job0 = (j2, s1, o1, r1)"
    by (metis prod_cases4)
  note f1 = load_stage_facts [OF ls]
  from f1 have sr2: "same_request job0 j2" and st2: "status j2 = ''running''"
    and svg2: "output_map_svg j2 = output_map_svg job0"
    and ne1: "s1 \<noteq> []" and last1: "last s1 = j2"
    and all1: "\<forall>x \<in> set s1. same_request job0 x"
    and r1: "snd (load_event_log c (original_file job0)) = r1"
    and cp1: "map checkpoint s1 =
           (case r1 of Inl e \<Rightarrow> [(''running'', 10)] | Inr df \<Rightarrow> [(''running'', 10), (''running'', 30)])"
    by simp_all
  show ?thesis
  proof (cases r1)
    case (Inl e)
    with tb ls have eq: "j = j2" "ss = s1" "out = o1" "r = Some e"
      by (simp_all add: try_body_def)
    from r1 Inl have sres: "stages_result c job0 jid = Inl e"
      by (simp add: stages_result_def)
    from cp1 Inl have "running_checkpoints (cleaning_enabled job0) =
        map checkpoint s1 @ ((''running'', 30) #
          (if cleaning_enabled job0 then [(''running'', 40), (''running'', 60)] else []) @
          [(''running'', 70), (''running'', 90)])"
      by (simp add: running_checkpoints_def)
    then have ex: "\<exists>rest. running_checkpoints (cleaning_enabled job0) = map checkpoint s1 @ rest"
      by blast
    from eq sr2 st2 ne1 last1 all1 sres ex show ?thesis
      by simp
  next
    case df: (Inr df)
    obtain j4 s2 r2 where cs: "clean_stage c j2 df = (j4, s2, r2)"
      by (metis prod_cases3)
    note f2 = clean_stage_facts [OF cs]
    from sr2 have ce: "cleaning_enabled j2 = cleaning_enabled job0"
      by (simp add: same_request_def)
    from f2 have sr24: "same_request j2 j4" and st24: "status j4 = status j2"
      and svg24: "output_map_svg j4 = output_map_svg j2"
      and last2: "ss2 = s2 \<Longrightarrow> ss2 = [] \<and> j4 = j2 \<or> ss2 \<noteq> [] \<and> last ss2 = j4"
      and all2: "\<forall>x \<in> set s2. same_request j2 x"
      and r2': "r2 = (if cleaning_enabled j2 then run_smart_clean c df else Inr df)"
      and cp2: "map checkpoint s2 =
           (if cleaning_enabled j2
            then (case r2 of Inl e \<Rightarrow> [(status j2, 40)] | Inr df' \<Rightarrow> [(status j2, 40), (status j2, 60)])
            else [])"
      for ss2
      by simp_all
    from r2' ce have r2: "(if cleaning_enabled job0 then run_smart_clean c df else Inr df) = r2"
      by simp
    from sr2 sr24 have sr4: "same_request job0 j4"
      by (rule same_request_trans)
    from st2 st24 have st4: "status j4 = ''running''"
      by simp
    from svg2 svg24 have svg4: "output_map_svg j4 = output_map_svg job0"
      by simp
    from all1 all2 sr2 have all12: "\<forall>x \<in> set (s1 @ s2). same_request job0 x"
      by (auto intro: same_request_trans)
    from ne1 last1 last2 [OF refl] have last12: "s1 @ s2 \<noteq> [] \<and> last (s1 @ s2) = j4"
      by auto
    show ?thesis
    proof (cases r2)
      case (Inl e)
      with tb ls df cs have eq: "j = j4" "ss = s1 @ s2" "out = o1" "r = Some e"
        by (simp_all add: try_body_def)
      from r2 Inl have en0: "cleaning_enabled job0"
        by (simp split: if_splits)
      from r1 r2 df Inl have sres: "stages_result c job0 jid = Inl e"
        by (simp add: stages_result_def)
      from cp1 cp2 df Inl en0 ce st2 have "map checkpoint (s1 @ s2) =
          [(''running'', 10), (''running'', 30), (''running'', 40)]"
        by simp
      with en0 have "running_checkpoints (cleaning_enabled job0) =
          map checkpoint (s1 @ s2) @ [(''running'', 60), (''running'', 70), (''running'', 90)]"
        by (simp add: running_checkpoints_def)
      then have ex: "\<exists>rest. running_checkpoints (cleaning_enabled job0) = map checkpoint (s1 @ s2) @ rest"
        by blast
      from eq sr4 st4 last12 all12 sres ex show ?thesis
        by simp
    next
      case df': (Inr df')
      obtain j5 s3 r3 where ms: "mining_stage c j4 df' jid = (j5, s3, r3)"
        by (metis prod_cases3)
      note f3 = mining_stage_facts [OF ms]
      from f3 have sr45: "same_request j4 j5" and st45: "status j5 = status j4"
        and svg45: "output_map_svg j5 = output_map_svg j4"
        and s3: "s3 = [j5]" and p5: "progress j5 = 70"
        and r3: "r3 = run_process_mining c df' (mining_method j4) jid"
        by simp_all
      from sr4 sr45 have sr5: "same_request job0 j5"
        by (rule same_request_trans)
      from sr4 have mm: "mining_method j4 = mining_method job0"
        by (simp add: same_request_def)
      from st4 st45 have st5: "status j5 = ''running''"
        by simp
      from svg4 svg45 have svg5: "output_map_svg j5 = output_map_svg job0"
        by simp
      from cp1 cp2 df df' ce st2 have cp12: "map checkpoint (s1 @ s2) =
          [(''running'', 10), (''running'', 30)] @
          (if cleaning_enabled job0 then [(''running'', 40), (''running'', 60)] else [])"
        by simp
      from s3 p5 st5 have cp3: "map checkpoint s3 = [(''running'', 70)]"
        by (simp add: checkpoint_def)
      from cp12 cp3 have cp123: "map checkpoint (s1 @ s2 @ s3) @ [(''running'', 90)] =
          running_checkpoints (cleaning_enabled job0)"
        by (simp add: running_checkpoints_def)
      from all12 s3 sr5 have all123: "\<forall>x \<in> set (s1 @ s2 @ s3). same_request job0 x"
        by auto
      from s3 have last123: "s1 @ s2 @ s3 \<noteq> [] \<and> last (s1 @ s2 @ s3) = j5"
        by simp
      from r1 r2 r3 df df' mm have sres: "stages_result c job0 jid = r3"
        by (simp add: stages_result_def)
      show ?thesis
      proof (cases r3)
        case (Inl e)
        with tb ls df cs df' ms have eq: "j = j5" "ss = s1 @ s2 @ s3" "out = o1" "r = Some e"
          by (simp_all add: try_body_def)
        from cp123 have ex: "\<exists>rest. running_checkpoints (cleaning_enabled job0) =
            map checkpoint (s1 @ s2 @ s3) @ rest"
          by metis
        from sres Inl have sres': "stages_result c job0 jid = Inl e"
          by simp
        from eq sr5 st5 last123 all123 sres' ex show ?thesis
          by simp
      next
        case p: (Inr p)
        from p r3 have "run_process_mining c df' (mining_method j4) jid = Inr p"
          by simp
        then have pe: "p \<noteq> [] \<and> exists_after_mining c p"
          by (rule run_process_mining_path)
        obtain j7 s4 o4 r4 where os: "output_stage c j5 p jid = (j7, s4, o4, r4)"
          by (metis prod_cases4)
        note f4 = output_stage_facts [OF os pe]
        from f4 have sr57: "same_request j5 j7" and st57: "status j7 = status j5"
          and r4: "r4 = open_rb c p"
          and all4': "\<forall>x \<in> set s4. same_request j5 x"
          and cp4': "map checkpoint s4 = (case r4 of Some e \<Rightarrow> [] | None \<Rightarrow> [(status j5, 90)])"
          and same5: "r4 \<noteq> None \<longrightarrow> j7 = j5"
          and rend: "\<forall>e. r4 = None \<and>
              render_svg c p (path_join (tempdir c) (''job_'' @ str_nat jid @ ''.svg'')) = Some e \<longrightarrow>
            output_map_svg j7 = output_map_svg j5 \<and>
            ''   Error: Failed to convert PNML to SVG: '' @ exc_msg e \<in> set o4"
          by simp_all
        from sr5 sr57 have sr7: "same_request job0 j7"
          by (rule same_request_trans)
        from sr5 all4' have all4: "\<forall>x \<in> set s4. same_request job0 x"
          by (blast intro: same_request_trans)
        from sres p have sres': "stages_result c job0 jid = Inr p"
          by simp
        show ?thesis
        proof (cases r4)
          case (Some e)
          with tb ls df cs df' ms p os have eq: "j = j7" "ss = s1 @ s2 @ s3 @ s4" "out = o1 @ o4" "r = Some e"
            by (simp_all add: try_body_def)
          from same5 cp4' Some have j75: "j7 = j5" and s4: "s4 = []"
            by simp_all
          from cp123 have ex: "\<exists>rest. running_checkpoints (cleaning_enabled job0) =
              map checkpoint (s1 @ s2 @ s3) @ rest"
            by metis
          from r4 Some have op: "open_rb c p = Some e"
            by simp
          from eq j75 s4 sr5 st5 last123 all123 sres' ex op show ?thesis
            by simp
        next
          case None
          with tb ls df cs df' ms p os have eq:
            "j = j7\<lparr>status := ''done'', progress := 100, message := ''Processing complete!''\<rparr>"
            "ss = s1 @ s2 @ s3 @ s4 @ [j]" "out = o1 @ o4" "r = None"
            by (auto simp: try_body_def Let_def)
          from cp4' None st5 have cp4: "map checkpoint s4 = [(''running'', 90)]"
            by simp
          from eq(1) have cp5: "checkpoint j = (''done'', 100)"
            by (simp add: checkpoint_def)
          from eq(1) sr7 have srj: "same_request job0 j"
            by (simp add: same_request_def)
          from r4 None have op: "open_rb c p = None"
            by simp
          have cps: "map checkpoint ss = running_checkpoints (cleaning_enabled job0) @ [(''done'', 100)]"
            using eq(2) cp123 cp4 cp5 by (simp flip: cp123)
          have alls: "\<forall>x \<in> set ss. same_request job0 x"
            using eq(2) all123 all4 srj by auto
          have lasts: "ss \<noteq> [] \<and> last ss = j"
            using eq(2) by simp
          have svg: "\<forall>e. render_svg c p (path_join (tempdir c) (''job_'' @ str_nat jid @ ''.svg'')) = Some e \<longrightarrow>
                 output_map_svg j = output_map_svg job0 \<and>
                 ''   Error: Failed to convert PNML to SVG: '' @ exc_msg e \<in> set out"
            using rend None eq(1,3) svg5 by simp
          from eq(4) srj lasts alls cps sres' op svg show ?thesis
            by simp
        qed
      qed
    qed
  qed
qed

text \<open>The runner on a job that exists: the saves of the body, and the handler's save.\<close>

lemma process_job_found:
  assumes "find (\<lambda>j. job_id j = jid) js = Some job0"
      and "try_body c job0 jid = (j, ss, out, r)"
  shows "process_job c js jid =
           \<lparr>saves = (case r of
                       None \<Rightarrow> ss
                     | Some e \<Rightarrow> ss @ [j\<lparr>status := ''error'', progress := 0, message := ''Processing failed'',
                                         error_message := exc_msg e @ [CHR 0x0A, CHR 0x0A] @ format_exc c e\<rparr>]),
            printed = out, escaped = None\<rparr>"
  using assms by (simp add: process_job_def Let_def split: option.splits)

text \<open>Saving rows of one job, one after the other, leaves the last one in its place.\<close>

lemma save_existing:
  assumes "\<exists>r \<in> set js. job_id r = jid" and "job_id x = jid"
  shows "save x js = map (\<lambda>r. if job_id r = jid then x else r) js"
  using assms by (simp add: save_def)

lemma foldl_save:
  assumes "\<exists>r \<in> set js. job_id r = jid" and "\<forall>x \<in> set ss. job_id x = jid" and "ss \<noteq> []"
  shows "foldl (\<lambda>tbl j. save j tbl) js ss = map (\<lambda>r. if job_id r = jid then last ss else r) js"
  using assms
proof (induction ss arbitrary: js)
  case Nil
  then show ?case by simp
next
  case (Cons x xs)
  from Cons.prems have x: "job_id x = jid" by simp
  have sv: "save x js = map (\<lambda>r. if job_id r = jid then x else r) js"
    using Cons.prems(1) x by (rule save_existing)
  show ?case
  proof (cases "xs = []")
    case True
    with sv show ?thesis by simp
  next
    case False
    from Cons.prems(1) x have ex: "\<exists>r \<in> set (save x js). job_id r = jid"
      unfolding sv by auto
    from Cons.prems have all: "\<forall>y \<in> set xs. job_id y = jid" by simp
    from Cons.IH [OF ex all False] False x show ?thesis
      by (simp add: sv comp_def if_distrib cong: if_cong)
  qed
qed

lemma find_replaced:
  assumes "\<exists>r \<in> set js. job_id r = jid" and "job_id x = jid" and "P x"
      and "\<And>r. P r \<Longrightarrow> job_id r = jid"
  shows "find P (map (\<lambda>r. if job_id r = jid then x else r) js) = Some x"
  using assms(1)
proof (induction js)
  case Nil
  then show ?case by simp
next
  case (Cons a as)
  show ?case
  proof (cases "job_id a = jid")
    case True
    with assms(3) show ?thesis by simp
  next
    case False
    with assms(4) have "\<not> P a" by blast
    with False Cons show ?thesis by simp
  qed
qed

lemma find_job_id: "find (\<lambda>j. job_id j = jid) js = Some job0 \<Longrightarrow> job_id job0 = jid \<and> job0 \<in> set js"
  by (auto simp: find_Some_iff)

text \<open>The checkpoints before the last one: all running, strictly increasing, from 10 to 90.\<close>

lemma running_checkpoints_facts:
  "(\<forall>cp \<in> set (running_checkpoints b). fst cp = ''running'' \<and> 10 \<le> snd cp \<and> snd cp \<le> 90) \<and>
   sorted_wrt (<) (map snd (running_checkpoints b))"
  by (simp add: running_checkpoints_def)

lemma checkpoint_maps:
  "map status xs = map fst (map checkpoint xs)" "map progress xs = map snd (map checkpoint xs)"
  by (simp_all add: checkpoint_def comp_def)


section \<open>Failures of the pipeline\<close>

text \<open>
  C3: When the load, clean or discover stage raises an exception during \<open>process_job\<close>
  on a job that exists, no exception leaves \<open>process_job\<close>; the last row it saves
  has state \<open>error\<close> and progress 0, and its error message is the text of the exception,
  a blank line and the traceback, so it is not empty. In the job table after the run
  every row of another job is what it was, and the row of this job is that last save.
\<close>

theorem pipeline_exception_recorded:
  assumes found: "find (\<lambda>j. job_id j = jid) js = Some job0"
      and raised: "stages_result c job0 jid = Inl e"
  shows "escaped (process_job c js jid) = None \<and>
         saves (process_job c js jid) \<noteq> [] \<and>
         status (last (saves (process_job c js jid))) = ''error'' \<and>
         progress (last (saves (process_job c js jid))) = 0 \<and>
         error_message (last (saves (process_job c js jid))) =
           exc_msg e @ [CHR 0x0A, CHR 0x0A] @ format_exc c e \<and>
         error_message (last (saves (process_job c js jid))) \<noteq> [] \<and>
         run_job c js jid =
           map (\<lambda>r. if job_id r = jid then last (saves (process_job c js jid)) else r) js"
proof -
  obtain j ss out r where tb: "try_body c job0 jid = (j, ss, out, r)"
    by (metis prod_cases4)
  note f = try_body_facts [OF tb]
  from f raised have r: "r = Some e"
    by simp
  let ?failed = "j\<lparr>status := ''error'', progress := 0, message := ''Processing failed'',
                   error_message := exc_msg e @ [CHR 0x0A, CHR 0x0A] @ format_exc c e\<rparr>"
  from process_job_found [OF found tb] r
  have pj: "process_job c js jid = \<lparr>saves = ss @ [?failed], printed = out, escaped = None\<rparr>"
    by simp
  from find_job_id [OF found] have id0: "job_id job0 = jid" and ex: "\<exists>r \<in> set js. job_id r = jid"
    by auto
  from f id0 have ids: "\<forall>x \<in> set (ss @ [?failed]). job_id x = jid"
    by (auto simp: same_request_def)
  have "foldl (\<lambda>tbl j. save j tbl) js (ss @ [?failed]) =
          map (\<lambda>r. if job_id r = jid then last (ss @ [?failed]) else r) js"
    using ex ids by (rule foldl_save) simp
  then have rj: "run_job c js jid = map (\<lambda>r. if job_id r = jid then ?failed else r) js"
    by (simp add: run_job_def pj)
  from pj rj show ?thesis
    by simp
qed

text \<open>
  Cleaning raises \<open>RuntimeError: boom\<close> on job 7 while job 8 of another user is in the
  table: job 7 ends in \<open>error\<close> at progress 0 with the message recorded, job 8 is as
  before.
\<close>

theorem pipeline_exception_recorded_witness:
  "status (last (saves (process_job (sample_collaborators (\<lambda>n. Inl (Exn ''RuntimeError'' ''boom'')) None None)
      [stored_job 7 1 ''p'' ''pending'' 0, stored_job 8 2 ''q'' ''running'' 30] 7))) = ''error'' \<and>
   error_message (last (saves (process_job (sample_collaborators (\<lambda>n. Inl (Exn ''RuntimeError'' ''boom'')) None None)
      [stored_job 7 1 ''p'' ''pending'' 0, stored_job 8 2 ''q'' ''running'' 30] 7))) =
     ''boom'' @ [CHR 0x0A, CHR 0x0A] @ ''Traceback (most recent call last): RuntimeError: boom'' \<and>
   run_job (sample_collaborators (\<lambda>n. Inl (Exn ''RuntimeError'' ''boom'')) None None)
      [stored_job 7 1 ''p'' ''pending'' 0, stored_job 8 2 ''q'' ''running'' 30] 7 =
     [last (saves (process_job (sample_collaborators (\<lambda>n. Inl (Exn ''RuntimeError'' ''boom'')) None None)
      [stored_job 7 1 ''p'' ''pending'' 0, stored_job 8 2 ''q'' ''running'' 30] 7)),
      stored_job 8 2 ''q'' ''running'' 30]"
proof -
  let ?c = "sample_collaborators (\<lambda>n. Inl (Exn ''RuntimeError'' ''boom'')) None None"
  let ?js = "[stored_job 7 1 ''p'' ''pending'' 0, stored_job 8 2 ''q'' ''running'' 30]"
  have found: "find (\<lambda>j. job_id j = 7) ?js = Some (stored_job 7 1 ''p'' ''pending'' 0)"
    by (simp add: stored_job_def)
  have raised: "stages_result ?c (stored_job 7 1 ''p'' ''pending'' 0) 7 = Inl (Exn ''RuntimeError'' ''boom'')"
    by (simp add: stages_result_def load_event_log_def run_smart_clean_def
        sample_collaborators_def stored_job_def endswith_def)
  have ids: "job_id (stored_job 7 1 ''p'' ''pending'' 0) = 7" "job_id (stored_job 8 2 ''q'' ''running'' 30) = 8"
    by (simp_all add: stored_job_def)
  have fe: "format_exc ?c (Exn ''RuntimeError'' ''boom'') = ''Traceback (most recent call last): RuntimeError: boom''"
    by (simp add: sample_collaborators_def)
  from pipeline_exception_recorded [OF found raised] ids fe show ?thesis
    by simp
qed

section \<open>Failures of the rendering\<close>

text \<open>
  C4: When load, clean and discover succeed and the PNML file can be opened, but the
  rendering of the PNML file to SVG raises, the exception is caught and its text is
  printed; no exception leaves \<open>process_job\<close>, no saved row is in state \<open>error\<close>, and
  the last save has state \<open>done\<close> and progress 100 with the output fields as they were
  before the run, so no image is saved. For a job that had no output when the run began
  (as every job has at creation), the owner's next \<open>job_status\<close> response has status
  200, reports \<open>done\<close> and 100, and has neither an \<open>output_url\<close> nor an
  \<open>error_message\<close>.
\<close>

theorem render_failure_tolerated:
  assumes found: "find (\<lambda>j. job_id j = jid) js = Some job0"
      and mined: "stages_result c job0 jid = Inr p"
      and opened: "open_rb c p = None"
      and render: "render_svg c p (path_join (tempdir c) (''job_'' @ str_nat jid @ ''.svg'')) = Some e"
      and no_output: "\<not> has_file (output_map_svg job0) \<and> \<not> has_file (output_map_image job0)"
      and owner: "user_id job0 = pk u"
  shows "escaped (process_job c js jid) = None \<and>
         ''   Error: Failed to convert PNML to SVG: '' @ exc_msg e \<in> set (printed (process_job c js jid)) \<and>
         (\<forall>x \<in> set (saves (process_job c js jid)). status x \<noteq> ''error'') \<and>
         status (last (saves (process_job c js jid))) = ''done'' \<and>
         progress (last (saves (process_job c js jid))) = 100 \<and>
         output_map_svg (last (saves (process_job c js jid))) = output_map_svg job0 \<and>
         output_map_image (last (saves (process_job c js jid))) = output_map_image job0 \<and>
         status_code (job_status u jid (run_job c js jid)) = 200 \<and>
         map_of (body (job_status u jid (run_job c js jid))) ''status'' = Some (JStr ''done'') \<and>
         map_of (body (job_status u jid (run_job c js jid))) ''progress'' = Some (JInt 100) \<and>
         map_of (body (job_status u jid (run_job c js jid))) ''output_url'' = None \<and>
         map_of (body (job_status u jid (run_job c js jid))) ''error_message'' = None"
proof -
  obtain j ss out r where tb: "try_body c job0 jid = (j, ss, out, r)"
    by (metis prod_cases4)
  note f = try_body_facts [OF tb]
  from f mined opened have r: "r = None"
    by simp
  from f mined r render have svg: "output_map_svg j = output_map_svg job0"
    and line: "''   Error: Failed to convert PNML to SVG: '' @ exc_msg e \<in> set out"
    by simp_all
  from f have sr: "same_request job0 j" and ne: "ss \<noteq> []" and lst: "last ss = j"
    and all: "\<forall>x \<in> set ss. same_request job0 x"
    by simp_all
  from f r have cps: "map checkpoint ss = running_checkpoints (cleaning_enabled job0) @ [(''done'', 100)]"
    by simp
  from process_job_found [OF found tb] r
  have pj: "process_job c js jid = \<lparr>saves = ss, printed = out, escaped = None\<rparr>"
    by simp
  have "map status ss = map fst (running_checkpoints (cleaning_enabled job0)) @ [''done'']"
    by (simp add: checkpoint_maps cps)
  then have "set (map status ss) \<subseteq> {''running'', ''done''}"
    using running_checkpoints_facts [of "cleaning_enabled job0"] by auto
  then have no_err: "\<forall>x \<in> set ss. status x \<noteq> ''error''"
    by auto
  from ne lst have "checkpoint j = last (map checkpoint ss)"
    by (simp add: last_map)
  with cps have cpj: "status j = ''done''" "progress j = 100"
    by (simp_all add: checkpoint_def)
  from sr have img: "output_map_image j = output_map_image job0" and uid: "user_id j = user_id job0"
    and jid: "job_id j = job_id job0"
    by (simp_all add: same_request_def)
  from find_job_id [OF found] have id0: "job_id job0 = jid" and ex: "\<exists>r \<in> set js. job_id r = jid"
    by auto
  from all id0 have ids: "\<forall>x \<in> set ss. job_id x = jid"
    by (simp add: same_request_def)
  have "foldl (\<lambda>tbl j. save j tbl) js ss = map (\<lambda>r. if job_id r = jid then last ss else r) js"
    using ex ids ne by (rule foldl_save)
  with lst have rj: "run_job c js jid = map (\<lambda>r. if job_id r = jid then j else r) js"
    by (simp add: run_job_def pj)
  have fnd: "find (\<lambda>x. job_id x = jid \<and> user_id x = pk u) (run_job c js jid) = Some j"
    unfolding rj using ex
  proof (rule find_replaced)
    show "job_id j = jid" using jid id0 by simp
    show "job_id j = jid \<and> user_id j = pk u" using jid id0 uid owner by simp
  qed simp
  from no_output svg img have url: "get_output_url j = None"
    by (simp add: get_output_url_def)
  have js: "job_status u jid (run_job c js jid) =
              JsonResponse [(''status'', JStr ''done''), (''progress'', JInt 100),
                            (''message'', JStr (message j)), (''redirect_url'', JStr ''/dashboard/'')] 200"
    by (simp add: job_status_def fnd cpj url Let_def)
  from pj line no_err lst cpj svg img show ?thesis
    by (simp add: js)
qed

text \<open>
  The renderer raises \<open>no dot\<close> on job 7: the job is \<open>done\<close> at 100, the line is
  printed, and the owner's status response carries no \<open>output_url\<close>.
\<close>

theorem render_failure_tolerated_witness:
  "''   Error: Failed to convert PNML to SVG: no dot'' \<in>
     set (printed (process_job (sample_collaborators (\<lambda>n. Inr 4900) None (Some (Exn ''OSError'' ''no dot'')))
            [stored_job 7 1 ''p'' ''pending'' 0] 7)) \<and>
   status (last (saves (process_job (sample_collaborators (\<lambda>n. Inr 4900) None (Some (Exn ''OSError'' ''no dot'')))
            [stored_job 7 1 ''p'' ''pending'' 0] 7))) = ''done'' \<and>
   map_of (body (job_status free_user 7
      (run_job (sample_collaborators (\<lambda>n. Inr 4900) None (Some (Exn ''OSError'' ''no dot'')))
            [stored_job 7 1 ''p'' ''pending'' 0] 7))) ''status'' = Some (JStr ''done'') \<and>
   map_of (body (job_status free_user 7
      (run_job (sample_collaborators (\<lambda>n. Inr 4900) None (Some (Exn ''OSError'' ''no dot'')))
            [stored_job 7 1 ''p'' ''pending'' 0] 7))) ''output_url'' = None"
proof -
  let ?c = "sample_collaborators (\<lambda>n. Inr 4900) None (Some (Exn ''OSError'' ''no dot''))"
  let ?j = "stored_job 7 1 ''p'' ''pending'' 0"
  have found: "find (\<lambda>j. job_id j = 7) [?j] = Some ?j"
    by (simp add: stored_job_def)
  obtain p where mined: "stages_result ?c ?j 7 = Inr p"
    by (simp add: stages_result_def load_event_log_def run_smart_clean_def run_process_mining_def
        sample_collaborators_def stored_job_def endswith_def Let_def)
  have opened: "open_rb ?c p = None"
    by (simp add: sample_collaborators_def)
  have render: "render_svg ?c p (path_join (tempdir ?c) (''job_'' @ str_nat 7 @ ''.svg'')) =
                  Some (Exn ''OSError'' ''no dot'')"
    by (simp add: sample_collaborators_def)
  have no_output: "\<not> has_file (output_map_svg ?j) \<and> \<not> has_file (output_map_image ?j)"
    by (simp add: stored_job_def has_file_def)
  have owner: "user_id ?j = pk free_user"
    by (simp add: stored_job_def free_user_def)
  from render_failure_tolerated [OF found mined opened render no_output owner] show ?thesis
    by simp
qed


section \<open>Progress\<close>

text \<open>
  C2: A job is created with progress 0 in state \<open>pending\<close>. For the rows that one run of
  \<open>process_job\<close> saves for it: there is a last one, and it is terminal (\<open>done\<close> or
  \<open>error\<close>); every row before it is \<open>running\<close>; the progress values from creation up
  to the last row before the terminal one never decrease; every row in state \<open>done\<close>
  has progress 100 and every row in state \<open>error\<close> has progress 0; and when the run
  ends in \<open>done\<close>, the checkpoints are 10, 30, then 40 and 60 when cleaning is enabled,
  then 70, 90 and 100, strictly increasing from the 0 of creation.
\<close>

theorem progress_monotone_until_terminal:
  assumes found: "find (\<lambda>j. job_id j = jid) js = Some job0"
      and created: "progress job0 = 0"
  shows "(let tr = saves (process_job c js jid) in
            tr \<noteq> [] \<and>
            (status (last tr) = ''done'' \<or> status (last tr) = ''error'') \<and>
            (\<forall>x \<in> set (butlast tr). status x = ''running'') \<and>
            sorted (map progress (job0 # butlast tr)) \<and>
            (\<forall>x \<in> set tr. (status x = ''done'' \<longrightarrow> progress x = 100) \<and>
                           (status x = ''error'' \<longrightarrow> progress x = 0)) \<and>
            (status (last tr) = ''done'' \<longrightarrow>
               map progress tr = (if cleaning_enabled job0 then [10, 30, 40, 60, 70, 90, 100]
                                  else [10, 30, 70, 90, 100]) \<and>
               sorted_wrt (<) (map progress (job0 # tr)))) \<and>
         (\<forall>j st'. objects_create b d u f pn ce m st = (Inr j, st') \<longrightarrow>
            progress j = 0 \<and> status j = ''pending'')"
proof -
  obtain j ss out r where tb: "try_body c job0 jid = (j, ss, out, r)"
    by (metis prod_cases4)
  note f = try_body_facts [OF tb]
  note pj = process_job_found [OF found tb]
  let ?rc = "running_checkpoints (cleaning_enabled job0)"
  have new: "\<forall>j st'. objects_create b d u f pn ce m st = (Inr j, st') \<longrightarrow>
               progress j = 0 \<and> status j = ''pending''"
    by (auto simp: objects_create_def new_job_def Let_def split: sum.splits option.splits)
  show ?thesis
  proof (cases r)
    case None
    with f have cps: "map checkpoint ss = ?rc @ [(''done'', 100)]"
      by simp
    from pj None have tr: "saves (process_job c js jid) = ss"
      by simp
    from cps have ne: "ss \<noteq> []"
      by auto
    have st: "map status ss = map fst ?rc @ [''done'']"
      and pr: "map progress ss = map snd ?rc @ [100]"
      by (simp_all add: checkpoint_maps cps)
    from ne st have lst: "status (last ss) = ''done''"
      by (metis last_map last_snoc)
    from ne st have bl: "map status (butlast ss) = map fst ?rc"
      by (metis butlast_snoc map_butlast)
    from ne pr have blp: "map progress (butlast ss) = map snd ?rc"
      by (metis butlast_snoc map_butlast)
    from bl have run: "\<forall>x \<in> set (butlast ss). status x = ''running''"
    proof -
      have "set (map status (butlast ss)) \<subseteq> {''running''}"
        unfolding bl using running_checkpoints_facts [of "cleaning_enabled job0"] by auto
      then show ?thesis by auto
    qed
    have srt: "sorted (map progress (job0 # butlast ss))"
      using created blp by (simp add: running_checkpoints_def)
    have terminal: "\<forall>x \<in> set ss. (status x = ''done'' \<longrightarrow> progress x = 100) \<and>
                             (status x = ''error'' \<longrightarrow> progress x = 0)"
    proof
      fix x assume "x \<in> set ss"
      then have "checkpoint x \<in> set (map checkpoint ss)"
        by simp
      then have "checkpoint x \<in> set ?rc \<or> checkpoint x = (''done'', 100)"
        unfolding cps by auto
      then show "(status x = ''done'' \<longrightarrow> progress x = 100) \<and> (status x = ''error'' \<longrightarrow> progress x = 0)"
        using running_checkpoints_facts [of "cleaning_enabled job0"]
        by (auto simp: checkpoint_def)
    qed
    have all: "map progress ss = (if cleaning_enabled job0 then [10, 30, 40, 60, 70, 90, 100]
                                  else [10, 30, 70, 90, 100])"
      unfolding pr by (simp add: running_checkpoints_def)
    have strict: "sorted_wrt (<) (map progress (job0 # ss))"
      using created all by simp
    show ?thesis
      unfolding Let_def tr using ne lst run srt terminal all strict new by blast
  next
    case (Some e)
    let ?failed = "j\<lparr>status := ''error'', progress := 0, message := ''Processing failed'',
                     error_message := exc_msg e @ [CHR 0x0A, CHR 0x0A] @ format_exc c e\<rparr>"
    from pj Some have tr: "saves (process_job c js jid) = ss @ [?failed]"
      by simp
    from f Some obtain rest where pre: "?rc = map checkpoint ss @ rest"
      by auto
    from running_checkpoints_facts [of "cleaning_enabled job0"]
    have rc1: "\<forall>cp \<in> set (map checkpoint ss). fst cp = ''running'' \<and> 10 \<le> snd cp"
      and rc2: "sorted_wrt (<) (map snd (map checkpoint ss))"
      unfolding pre by (auto simp: sorted_wrt_append)
    from rc1 have run: "\<forall>x \<in> set ss. status x = ''running'' \<and> 10 \<le> progress x"
      by (simp add: checkpoint_def)
    from rc2 have "sorted (map progress ss)"
      by (simp add: checkpoint_maps sorted_wrt_mono_rel [of _ "(<)" "(\<le>)"])
    with run created have srt: "sorted (map progress (job0 # ss))"
      by auto
    from run have terminal: "\<forall>x \<in> set (ss @ [?failed]).
        (status x = ''done'' \<longrightarrow> progress x = 100) \<and> (status x = ''error'' \<longrightarrow> progress x = 0)"
      by auto
    have ne: "ss @ [?failed] \<noteq> []"
      by simp
    have lst: "status (last (ss @ [?failed])) = ''error''" and nd: "status (last (ss @ [?failed])) \<noteq> ''done''"
      by simp_all
    have run': "\<forall>x \<in> set (butlast (ss @ [?failed])). status x = ''running''"
      using run by simp
    have srt': "sorted (map progress (job0 # butlast (ss @ [?failed])))"
      using srt by simp
    show ?thesis
      unfolding Let_def tr using ne lst nd run' srt' terminal new by blast
  qed
qed

text \<open>
  The sample run with cleaning: the checkpoints are 10, 30, 40, 60, 70, 90, 100 and the
  run ends in \<open>done\<close>.
\<close>

theorem progress_monotone_until_terminal_witness:
  "map progress (saves (process_job (sample_collaborators (\<lambda>n. Inr 4900) None None)
      [stored_job 7 1 ''p'' ''pending'' 0] 7)) = [10, 30, 40, 60, 70, 90, 100] \<and>
   status (last (saves (process_job (sample_collaborators (\<lambda>n. Inr 4900) None None)
      [stored_job 7 1 ''p'' ''pending'' 0] 7))) = ''done'' \<and>
   sorted_wrt (<) (map progress (stored_job 7 1 ''p'' ''pending'' 0 #
      saves (process_job (sample_collaborators (\<lambda>n. Inr 4900) None None)
        [stored_job 7 1 ''p'' ''pending'' 0] 7)))"
proof -
  let ?c = "sample_collaborators (\<lambda>n. Inr 4900) None None"
  let ?j = "stored_job 7 1 ''p'' ''pending'' 0"
  have found: "find (\<lambda>j. job_id j = 7) [?j] = Some ?j"
    by (simp add: stored_job_def)
  have created: "progress ?j = 0"
    by (simp add: stored_job_def)
  have cl: "cleaning_enabled ?j"
    by (simp add: stored_job_def)
  obtain p where mined: "stages_result ?c ?j 7 = Inr p"
    by (simp add: stages_result_def load_event_log_def run_smart_clean_def run_process_mining_def
        sample_collaborators_def stored_job_def endswith_def Let_def)
  have opened: "open_rb ?c p = None"
    by (simp add: sample_collaborators_def)
  obtain j ss out r where tb: "try_body ?c ?j 7 = (j, ss, out, r)"
    by (metis prod_cases4)
  from try_body_facts [OF tb] mined opened have "r = None"
    by simp
  with process_job_found [OF found tb] try_body_facts [OF tb]
  have "status (last (saves (process_job ?c [?j] 7))) \<noteq> ''error''"
    by (auto simp: checkpoint_def last_map dest!: arg_cong [where f = last])
  with progress_monotone_until_terminal [OF found created, where c = ?c] cl created show ?thesis
    by (auto simp: Let_def)
qed

end
